theory Spec2Isabelle
  imports Main "HOL-Library.Word" "HOL-Library.Sublist"
begin

unbundle bit_operations_syntax

section \<open>Data model of the framework\<close>

text \<open>
  The windowing layer of \<^verbatim>\<open>Framework.cpp\<close> keeps one global object,
  \<^verbatim>\<open>in::WindowInfo\<close>, and one heap object of type \<^verbatim>\<open>in::WindowData\<close> per window.
  The headers that declare both structures are not part of the sources at hand, so the
  records below hold exactly the fields the functions read and write.

  Machine types: \<^verbatim>\<open>short\<close> is a 16-bit word read as two's complement, \<^verbatim>\<open>UINT\<close>,
  \<^verbatim>\<open>DWORD\<close>, \<^verbatim>\<open>long\<close> and the flag words are 32-bit words.  The counters, ids and
  geometry fields are 32-bit \<^verbatim>\<open>int\<close>s (\<^verbatim>\<open>tsd::GetWindowCount\<close> returns the counter as
  \<^verbatim>\<open>int\<close>, \<^verbatim>\<open>in::GetWindowData\<close> takes the id as \<^verbatim>\<open>int\<close>).  Their values are integers,
  and every addition and subtraction the program makes on a counter is wrapped to 32
  bits in two's complement by \<open>wrap32\<close>.  A window handle is a natural number, \<open>0\<close> being
  the null handle.
\<close>

type_synonym HWND = nat
type_synonym short = "16 word"
type_synonym UINT = "32 word"
type_synonym DWORD = "32 word"
type_synonym long = "32 word"

definition wrap32 :: "int \<Rightarrow> int" where
  "wrap32 x = sint (word_of_int x :: 32 word)"

record WindowData =
  hWnd :: HWND
  name :: "string option"
  isValid :: bool
  isVisible :: bool
  win_id :: int
  xPos :: int
  yPos :: int
  width :: int
  height :: int

text \<open>
  Calls into the operating system are recorded in the order the program makes them;
  what the system answers is an argument of the function that makes the call.
\<close>

datatype os_call =
    SpawnThread
  | OS_CreateWindowEx "string option" int int
  | OS_ShowWindow HWND int
  | OS_DestroyWindow HWND
  | OS_DefWindowProc HWND UINT nat int
  | OS_MessageBox HWND string string long
  | OS_LocalFree
  | OS_WriteFile string string

text \<open>
  \<^verbatim>\<open>in::WindowInfo\<close>.  The vector \<^verbatim>\<open>windows\<close> owns one \<^verbatim>\<open>WindowData\<close> object per
  entry and never shrinks, so an entry is held by value and a \<^verbatim>\<open>WindowData*\<close> into the
  vector is the position of the entry.
\<close>

record WindowInfo =
  windows :: "WindowData list"
  windowCount :: int
  windowsOpened :: int
  lastErrorCode :: int
  isInitialised :: bool
  isRunning :: bool
  windowIsFinished :: bool
  hInstance :: nat
  hIcon :: nat
  hCursor :: nat
  classAtom :: nat
  os_calls :: "os_call list"

datatype fault = NullDereference | StdException

section \<open>Lookup of window data\<close>



text \<open>\<^verbatim>\<open>in::GetWindowData(int)\<close>.\<close>

fun GetWindowData_id_loop :: "int \<Rightarrow> WindowData list \<Rightarrow> nat \<Rightarrow> nat option" where
  "GetWindowData_id_loop n [] k = None"
| "GetWindowData_id_loop n (i # rest) k =
     (if win_id i = n \<and> isValid i then Some k
      else GetWindowData_id_loop n rest (Suc k))"

definition GetWindowData_id :: "int \<Rightarrow> WindowInfo \<Rightarrow> nat option \<times> WindowInfo" where
  "GetWindowData_id n s = (GetWindowData_id_loop n (windows s) 0, s)"



section \<open>Accessors\<close>

text \<open>
  \<^verbatim>\<open>tsd::GetWindowName\<close> and its three siblings dereference what the lookup returns.
  A null result is the fault \<open>NullDereference\<close>.  The \<^verbatim>\<open>short\<close> argument is promoted
  to \<^verbatim>\<open>int\<close> for the call of \<^verbatim>\<open>in::GetWindowData(int)\<close>.
\<close>

definition GetWindowName :: "short \<Rightarrow> WindowInfo \<Rightarrow> fault + string option" where
  "GetWindowName n s =
     (case fst (GetWindowData_id (sint n) s) of
        None \<Rightarrow> Inl NullDereference
      | Some i \<Rightarrow> Inr (name (windows s ! i)))"

definition GetWindowVisibility :: "short \<Rightarrow> WindowInfo \<Rightarrow> fault + bool" where
  "GetWindowVisibility n s =
     (case fst (GetWindowData_id (sint n) s) of
        None \<Rightarrow> Inl NullDereference
      | Some i \<Rightarrow> Inr (isVisible (windows s ! i)))"

definition GetWindowWidth :: "short \<Rightarrow> WindowInfo \<Rightarrow> fault + int" where
  "GetWindowWidth n s =
     (case fst (GetWindowData_id (sint n) s) of
        None \<Rightarrow> Inl NullDereference
      | Some i \<Rightarrow> Inr (width (windows s ! i)))"

definition GetWindowHeight :: "short \<Rightarrow> WindowInfo \<Rightarrow> fault + int" where
  "GetWindowHeight n s =
     (case fst (GetWindowData_id (sint n) s) of
        None \<Rightarrow> Inl NullDereference
      | Some i \<Rightarrow> Inr (height (windows s ! i)))"

definition GetWindowCount :: "WindowInfo \<Rightarrow> int" where
  "GetWindowCount s = windowCount s"

definition Running :: "WindowInfo \<Rightarrow> bool" where
  "Running s = isRunning s"

definition GetLastError :: "WindowInfo \<Rightarrow> int" where
  "GetLastError s = lastErrorCode s"

definition SetLastError :: "int \<Rightarrow> WindowInfo \<Rightarrow> WindowInfo" where
  "SetLastError code s = s\<lparr>lastErrorCode := code\<rparr>"


text \<open>An operating-system call appends to the record of calls.\<close>

definition os_call :: "os_call \<Rightarrow> WindowInfo \<Rightarrow> WindowInfo" where
  "os_call c s = s\<lparr>os_calls := os_calls s @ [c]\<rparr>"

section \<open>Window creation and the message handler\<close>

text \<open>
  \<^verbatim>\<open>WindowData::MessageHandler\<close> up to the notification of the creating thread.
  \<open>created\<close> is what \<^verbatim>\<open>CreateWindowEx\<close> returns.  The macro \<^verbatim>\<open>WIN32_EC_RET\<close> is
  declared in the missing header; it stores the result and hands a null result to the
  Win32 error translator, which throws.  The position arguments of the call are left
  out of the record of calls (one of their constants is not declared in the sources).
\<close>

definition MessageHandler_create ::
  "HWND \<Rightarrow> WindowData \<Rightarrow> WindowInfo \<Rightarrow> fault + (WindowData \<times> WindowInfo)" where
  "MessageHandler_create created this s =
     (let s1 = os_call (OS_CreateWindowEx (name this) (width this) (height this)) s;
          this1 = this\<lparr>hWnd := created\<rparr>
      in if hWnd this1 = 0 then Inl StdException
         else
           let s2 = s1\<lparr>windowCount := wrap32 (windowCount s1 + 1)\<rparr>;
               s3 = s2\<lparr>windowsOpened := wrap32 (windowsOpened s2 + 1)\<rparr>;
               this2 = this1\<lparr>win_id := windowsOpened s3\<rparr>;
               s4 = os_call (OS_ShowWindow (hWnd this2) 1) s3;
               s5 = s4\<lparr>windowIsFinished := True\<rparr>
           in Inr (this2, s5))"

text \<open>
  The tail of \<^verbatim>\<open>MessageHandler\<close>, run when the \<^verbatim>\<open>GetMessage\<close> loop of the window at
  position \<open>this\<close> has ended.
\<close>

definition MessageHandler_exit :: "nat \<Rightarrow> WindowInfo \<Rightarrow> WindowInfo" where
  "MessageHandler_exit this s =
     (let s1 = s\<lparr>windowCount := wrap32 (windowCount s - 1)\<rparr>
      in s1\<lparr>windows := (windows s1)[this := (windows s1 ! this)\<lparr>isValid := False\<rparr>]\<rparr>)"

text \<open>
  The handler thread is started before the caller stores \<^verbatim>\<open>name\<close>, \<^verbatim>\<open>width\<close> and
  \<^verbatim>\<open>height\<close> in the object, and nothing orders these stores with the thread's reads for
  \<^verbatim>\<open>CreateWindowEx\<close>.  Which of the stores the thread sees is an input of the model.
\<close>

record handler_view =
  sees_name :: bool
  sees_width :: bool
  sees_height :: bool

text \<open>
  \<^verbatim>\<open>tsd::CreateWindow\<close>.  \<open>fresh\<close> is the content of the object \<^verbatim>\<open>new in::WindowData\<close>
  returns, \<open>seen\<close> is the object as the handler thread reads it, and the thread's own
  stores (\<^verbatim>\<open>hWnd\<close>, \<^verbatim>\<open>id\<close>) go to the object the caller has filled.  The caller blocks on
  the condition variable until the handler thread has set \<^verbatim>\<open>windowIsFinished\<close>, so the
  first part of the handler is over when the caller goes on.  The returned \<^verbatim>\<open>short\<close> is
  the id cut to 16 bits.
\<close>

definition CreateWindow ::
  "string option \<Rightarrow> int \<Rightarrow> int \<Rightarrow> int \<Rightarrow> int \<Rightarrow> WindowData \<Rightarrow> handler_view \<Rightarrow> HWND
     \<Rightarrow> WindowInfo \<Rightarrow> fault + (short \<times> WindowInfo)" where
  "CreateWindow name' width' height' xPos' yPos' fresh view created s =
     (if \<not> isInitialised s then Inr (0, SetLastError 2 s)
      else if name' = None then Inr (0, SetLastError 3 s)
      else if height' \<le> 0 \<or> width' \<le> 0 then Inr (0, SetLastError 3 s)
      else
        let s1 = os_call SpawnThread s;
            wndData = fresh\<lparr>name := name', width := width',
                        height := height', xPos := xPos', yPos := yPos', isValid := True\<rparr>;
            seen = wndData\<lparr>name := (if sees_name view then name' else name fresh),
                     width := (if sees_width view then width' else width fresh),
                     height := (if sees_height view then height' else height fresh)\<rparr>
        in case MessageHandler_create created seen s1 of
             Inl e \<Rightarrow> Inl e
           | Inr (this', s2) \<Rightarrow>
               let wndData' = wndData\<lparr>hWnd := hWnd this', win_id := win_id this'\<rparr>;
                   s3 = s2\<lparr>windows := windows s2 @ [wndData']\<rparr>;
                   s4 = s3\<lparr>windowIsFinished := False\<rparr>
               in Inr (word_of_int (win_id wndData'), s4))"

text \<open>
  \<^verbatim>\<open>tsd::Initialise\<close>; \<open>module\<close>, \<open>icon\<close>, \<open>cursor\<close> and \<open>atom\<close> are the answers of
  \<^verbatim>\<open>GetModuleHandle\<close>, \<^verbatim>\<open>LoadIcon\<close>, \<^verbatim>\<open>LoadCursor\<close> and \<^verbatim>\<open>RegisterClassEx\<close>.
\<close>

definition Initialise ::
  "int \<Rightarrow> int \<Rightarrow> nat \<Rightarrow> nat \<Rightarrow> nat \<Rightarrow> nat \<Rightarrow> WindowInfo \<Rightarrow> fault + (bool \<times> WindowInfo)" where
  "Initialise iconId cursorId module icon cursor atom s =
     (let s1 = s\<lparr>hInstance := module\<rparr>;
          (success1, s2) =
            (if iconId \<noteq> 0 then
               (let t = s1\<lparr>hIcon := icon\<rparr>
                in if hIcon t = 0 then (False, SetLastError 5 t) else (True, t))
             else (True, s1));
          (success2, s3) =
            (if cursorId \<noteq> 0 then
               (let t = s2\<lparr>hCursor := cursor\<rparr>
                in if hCursor t = 0 then (False, SetLastError 6 t) else (success1, t))
             else (success1, s2));
          s4 = s3\<lparr>classAtom := atom\<rparr>
      in if classAtom s4 = 0 then Inl StdException
         else Inr (success2, s4\<lparr>isInitialised := True\<rparr>))"

section \<open>The window procedure\<close>

definition WM_DESTROY :: UINT where
  "WM_DESTROY = 0x0002"

definition WM_CLOSE :: UINT where
  "WM_CLOSE = 0x0010"

text \<open>
  \<^verbatim>\<open>in::WindowProc\<close>.  \<open>def_result\<close> is what \<^verbatim>\<open>DefWindowProc\<close> answers.  The
  \<^verbatim>\<open>WM_CLOSE\<close> case ends in \<^verbatim>\<open>break\<close>, so control reaches the final \<^verbatim>\<open>return\<close>.
\<close>

definition WindowProc ::
  "HWND \<Rightarrow> UINT \<Rightarrow> nat \<Rightarrow> int \<Rightarrow> int \<Rightarrow> WindowInfo \<Rightarrow> int \<times> WindowInfo" where
  "WindowProc hWnd' uMsg wParam lParam def_result s =
     (if uMsg = WM_CLOSE then
        (let s1 = os_call (OS_DestroyWindow hWnd') s
         in (def_result, os_call (OS_DefWindowProc hWnd' uMsg wParam lParam) s1))
      else if uMsg = WM_DESTROY then
        (if GetWindowCount s = 1 then (0, s\<lparr>isRunning := False\<rparr>)
         else (def_result, os_call (OS_DefWindowProc hWnd' uMsg wParam lParam) s))
      else (def_result, os_call (OS_DefWindowProc hWnd' uMsg wParam lParam) s))"

section \<open>The message box\<close>

text \<open>
  The flags of the framework and its results.  The enumerators' values are declared in
  the missing \<^verbatim>\<open>Framework.hpp\<close>; the functions below take them as the table \<open>mbf\<close>.
\<close>

datatype MBF =
    TASKMODAL | ICON_WARNING | ICON_ERROR | ICON_INFO | ICON_QUESTION
  | BUTTON_OK | BUTTON_OK_CANCEL | BUTTON_YES_NO | BUTTON_RETRY_CANEL
  | BUTTON_YES_NO_CANCEL | BUTTON_ABORT_RETRY_IGNORE | BUTTON_CANCEL_RETRY_CONTINUE

datatype MBR = ABORT | CANCEL | CONTINUE | IGNORE | NO | OK | RETRY | TRYAGAIN | YES

text \<open>The constants of \<^verbatim>\<open>winuser.h\<close>.\<close>

definition MB_OK :: long where "MB_OK = 0x0"
definition MB_OKCANCEL :: long where "MB_OKCANCEL = 0x1"
definition MB_ABORTRETRYIGNORE :: long where "MB_ABORTRETRYIGNORE = 0x2"
definition MB_YESNOCANCEL :: long where "MB_YESNOCANCEL = 0x3"
definition MB_YESNO :: long where "MB_YESNO = 0x4"
definition MB_RETRYCANCEL :: long where "MB_RETRYCANCEL = 0x5"
definition MB_CANCELTRYCONTINUE :: long where "MB_CANCELTRYCONTINUE = 0x6"
definition MB_ICONERROR :: long where "MB_ICONERROR = 0x10"
definition MB_ICONQUESTION :: long where "MB_ICONQUESTION = 0x20"
definition MB_ICONWARNING :: long where "MB_ICONWARNING = 0x30"
definition MB_ICONINFORMATION :: long where "MB_ICONINFORMATION = 0x40"
definition MB_TASKMODAL :: long where "MB_TASKMODAL = 0x2000"

definition IDOK :: int where "IDOK = 1"
definition IDCANCEL :: int where "IDCANCEL = 2"
definition IDABORT :: int where "IDABORT = 3"
definition IDRETRY :: int where "IDRETRY = 4"
definition IDIGNORE :: int where "IDIGNORE = 5"
definition IDYES :: int where "IDYES = 6"
definition IDNO :: int where "IDNO = 7"
definition IDTRYAGAIN :: int where "IDTRYAGAIN = 10"
definition IDCONTINUE :: int where "IDCONTINUE = 11"

text \<open>The chain of \<^verbatim>\<open>if (flags & MBF::X) rawFlags = rawFlags | MB_X\<close>, in source order.\<close>

definition MessageBox_rawFlags :: "(MBF \<Rightarrow> 32 word) \<Rightarrow> 32 word \<Rightarrow> long" where
  "MessageBox_rawFlags mbf flags =
     (let r0 = 0;
          r1 = (if flags AND mbf TASKMODAL \<noteq> 0 then r0 OR MB_TASKMODAL else r0);
          r2 = (if flags AND mbf ICON_WARNING \<noteq> 0 then r1 OR MB_ICONWARNING else r1);
          r3 = (if flags AND mbf ICON_ERROR \<noteq> 0 then r2 OR MB_ICONERROR else r2);
          r4 = (if flags AND mbf ICON_INFO \<noteq> 0 then r3 OR MB_ICONINFORMATION else r3);
          r5 = (if flags AND mbf ICON_QUESTION \<noteq> 0 then r4 OR MB_ICONQUESTION else r4);
          r6 = (if flags AND mbf BUTTON_OK \<noteq> 0 then r5 OR MB_OK else r5);
          r7 = (if flags AND mbf BUTTON_OK_CANCEL \<noteq> 0 then r6 OR MB_OKCANCEL else r6);
          r8 = (if flags AND mbf BUTTON_YES_NO \<noteq> 0 then r7 OR MB_YESNO else r7);
          r9 = (if flags AND mbf BUTTON_RETRY_CANEL \<noteq> 0 then r8 OR MB_RETRYCANCEL else r8);
          r10 = (if flags AND mbf BUTTON_YES_NO_CANCEL \<noteq> 0 then r9 OR MB_YESNOCANCEL else r9);
          r11 = (if flags AND mbf BUTTON_ABORT_RETRY_IGNORE \<noteq> 0
                 then r10 OR MB_ABORTRETRYIGNORE else r10);
          r12 = (if flags AND mbf BUTTON_CANCEL_RETRY_CONTINUE \<noteq> 0
                 then r11 OR MB_CANCELTRYCONTINUE else r11)
      in r12)"

text \<open>The \<^verbatim>\<open>switch (result)\<close> and the \<^verbatim>\<open>return\<close> behind it.\<close>

definition MessageBox_result :: "int \<Rightarrow> MBR" where
  "MessageBox_result result =
     (if result = IDABORT then ABORT
      else if result = IDCANCEL then CANCEL
      else if result = IDCONTINUE then CONTINUE
      else if result = IDIGNORE then IGNORE
      else if result = IDNO then NO
      else if result = IDOK then OK
      else if result = IDRETRY then RETRY
      else if result = IDTRYAGAIN then TRYAGAIN
      else if result = IDYES then YES
      else CANCEL)"

text \<open>\<^verbatim>\<open>tsd::MessageBox\<close>; \<open>result\<close> is what the system's message box returns.\<close>

definition MessageBox ::
  "(MBF \<Rightarrow> 32 word) \<Rightarrow> short \<Rightarrow> string \<Rightarrow> string \<Rightarrow> 32 word \<Rightarrow> int \<Rightarrow> WindowInfo
     \<Rightarrow> MBR \<times> WindowInfo" where
  "MessageBox mbf owner title msg flags result s =
     (let ownerData = fst (GetWindowData_id (sint owner) s);
          rawFlags = MessageBox_rawFlags mbf flags;
          s1 = os_call (OS_MessageBox
                 (case ownerData of Some i \<Rightarrow> hWnd (windows s ! i) | None \<Rightarrow> 0)
                 msg title rawFlags) s
      in (MessageBox_result result, s1))"

text \<open>
  The flag word as specified: the disjunction of the Win32 constants of the
  flags that are set, over the list of all flags.
\<close>

fun MB_of :: "MBF \<Rightarrow> long" where
  "MB_of TASKMODAL = MB_TASKMODAL"
| "MB_of ICON_WARNING = MB_ICONWARNING"
| "MB_of ICON_ERROR = MB_ICONERROR"
| "MB_of ICON_INFO = MB_ICONINFORMATION"
| "MB_of ICON_QUESTION = MB_ICONQUESTION"
| "MB_of BUTTON_OK = MB_OK"
| "MB_of BUTTON_OK_CANCEL = MB_OKCANCEL"
| "MB_of BUTTON_YES_NO = MB_YESNO"
| "MB_of BUTTON_RETRY_CANEL = MB_RETRYCANCEL"
| "MB_of BUTTON_YES_NO_CANCEL = MB_YESNOCANCEL"
| "MB_of BUTTON_ABORT_RETRY_IGNORE = MB_ABORTRETRYIGNORE"
| "MB_of BUTTON_CANCEL_RETRY_CONTINUE = MB_CANCELTRYCONTINUE"

definition all_MBF :: "MBF list" where
  "all_MBF = [TASKMODAL, ICON_WARNING, ICON_ERROR, ICON_INFO, ICON_QUESTION,
     BUTTON_OK, BUTTON_OK_CANCEL, BUTTON_YES_NO, BUTTON_RETRY_CANEL,
     BUTTON_YES_NO_CANCEL, BUTTON_ABORT_RETRY_IGNORE, BUTTON_CANCEL_RETRY_CONTINUE]"

definition rawFlags_spec :: "(MBF \<Rightarrow> 32 word) \<Rightarrow> 32 word \<Rightarrow> long" where
  "rawFlags_spec mbf flags =
     foldr (OR) (map MB_of (filter (\<lambda>f. flags AND mbf f \<noteq> 0) all_MBF)) 0"

section \<open>Error reports\<close>

text \<open>How \<^verbatim>\<open>operator<<\<close> of a stream prints an \<^verbatim>\<open>int\<close>: decimal, with a sign when negative.\<close>

definition digit_char :: "nat \<Rightarrow> char" where
  "digit_char d = ''0123456789'' ! d"

function show_nat :: "nat \<Rightarrow> string" where
  "show_nat n = (if n < 10 then [digit_char n] else show_nat (n div 10) @ [digit_char (n mod 10)])"
  by pat_completeness auto
termination
  by (relation "measure (\<lambda>n. n)") auto

declare show_nat.simps [simp del]

definition show_int :: "int \<Rightarrow> string" where
  "show_int i = (if i < 0 then CHR ''-'' # show_nat (nat (- i)) else show_nat (nat i))"

definition newline :: string where
  "newline = [CHR 0x0A]"

text \<open>
  \<^verbatim>\<open>in::CreateWin32DebugError\<close>.  \<open>e\<close> is the answer of \<^verbatim>\<open>GetLastError()\<close>, stored in an
  \<^verbatim>\<open>int\<close>; \<open>eMsg\<close> is the buffer \<^verbatim>\<open>FormatMessage\<close> allocates, \<open>None\<close> when the pointer
  stays null.  The function ends by throwing in every case.
\<close>

definition CreateWin32DebugError ::
  "int \<Rightarrow> DWORD \<Rightarrow> string option \<Rightarrow> WindowInfo \<Rightarrow> (fault + unit) \<times> WindowInfo" where
  "CreateWin32DebugError line e eMsg s =
     (let msg =
            (case eMsg of
               Some text \<Rightarrow>
                 ''A Win32 API call resulted in a fatal error '' @ show_int (sint e) @
                 '' at line '' @ show_int line @ '' in the source of the framework.'' @
                 newline @ newline @ text @
                 newline @ ''This is an internal error likely caused by the framework itself, the application must quit now.'' @ newline
             | None \<Rightarrow>
                 ''An Error occoured which even the error handler could not handle. This is usually caused by the error'' @
                 '' message being to long'' @ newline @ newline @
                 ''I guess I fucked up...'' @ newline);
          s1 = os_call (OS_MessageBox 0 msg ''Internal Error!''
                 (MB_ICONERROR OR MB_TASKMODAL OR MB_OK)) s;
          s2 = os_call OS_LocalFree s1
      in (Inl StdException, s2))"

text \<open>
  \<^verbatim>\<open>in::CreateWin32ReleaseError\<close>.  \<open>timestamp\<close> is the text of the macro
  \<^verbatim>\<open>__TIMESTAMP__\<close>, fixed when the file is compiled.
\<close>

definition CreateWin32ReleaseError ::
  "int \<Rightarrow> DWORD \<Rightarrow> string \<Rightarrow> WindowInfo \<Rightarrow> (fault + unit) \<times> WindowInfo" where
  "CreateWin32ReleaseError line e timestamp s =
     (let file =
            ''[ '' @ timestamp @ '' ]: '' @ ''Unhandled Win32 error! '' @ show_int (sint e) @
            '' at '' @ show_int line @ newline @
            ''[ '' @ timestamp @ '' ]: '' @ ''Fatal Error, application must abort!'' @ newline;
          s1 = os_call (OS_WriteFile ''Last_Log.txt'' file) s;
          msg =
            ''A critical error occoured, the application must quit now!'' @ newline @ newline @
            ''For more information check the logfiles in the application'' @
            '' directory'' @ newline;
          s2 = os_call (OS_MessageBox 0 msg ''Critical Error!''
                 (MB_TASKMODAL OR MB_OK OR MB_ICONERROR)) s1
      in (Inl StdException, s2))"

text \<open>
  \<^verbatim>\<open>tsd::GetErrorInformation\<close>; the table \<^verbatim>\<open>in::errors\<close> is declared outside the
  sources at hand and is the parameter \<open>errors\<close>.
\<close>

definition GetErrorInformation :: "(int \<rightharpoonup> string) \<Rightarrow> int \<Rightarrow> string" where
  "GetErrorInformation errors code =
     (case errors code of Some text \<Rightarrow> text | None \<Rightarrow> ''Invalid error Code!'')"

text \<open>\<^verbatim>\<open>tsd::CreateAutoDebugError\<close>.\<close>

definition CreateAutoDebugError ::
  "(int \<rightharpoonup> string) \<Rightarrow> int \<Rightarrow> bool \<Rightarrow> WindowInfo \<Rightarrow> (fault + unit) \<times> WindowInfo" where
  "CreateAutoDebugError errors line quit s =
     (let msg =
            ''Error '' @ show_int (GetLastError s) @ '' has occoured at line '' @
            show_int line @ ''.'' @ newline @ newline @
            GetErrorInformation errors (GetLastError s) @ newline @ newline @
            (if quit then ''The application must quit now.'' else []);
          s1 = os_call (OS_MessageBox 0 msg ''Error!''
                 (MB_TASKMODAL OR MB_OK OR MB_ICONERROR)) s
      in if quit then (Inl StdException, s1) else (Inr (), s1))"

text \<open>\<^verbatim>\<open>tsd::CreateAutoReleaseError\<close>: the body holds a comment and no statement.\<close>

definition CreateAutoReleaseError ::
  "int \<Rightarrow> bool \<Rightarrow> WindowInfo \<Rightarrow> (fault + unit) \<times> WindowInfo" where
  "CreateAutoReleaseError line quit s = (Inr (), s)"

section \<open>Runs of the program\<close>

text \<open>
  The state the program starts in: \<^verbatim>\<open>WindowInfo\<close> has static storage, so the counters
  are zero and the vector is empty.  The start value of \<^verbatim>\<open>isRunning\<close> is the header's
  and is the parameter \<open>running\<close>.
\<close>

definition WindowInfo_init :: "bool \<Rightarrow> WindowInfo" where
  "WindowInfo_init running =
     \<lparr>windows = [], windowCount = 0, windowsOpened = 0, lastErrorCode = 0,
      isInitialised = False, isRunning = running, windowIsFinished = False,
      hInstance = 0, hIcon = 0, hCursor = 0, classAtom = 0, os_calls = []\<rparr>"

text \<open>
  What happens to the global state, one call at a time: the calls of the interface, the
  window procedure the system calls back, and the end of a window's message loop.  The
  tail of the handler runs once per window, and it alone clears \<^verbatim>\<open>isValid\<close>; so the
  message loop of a window in the list can end only while \<^verbatim>\<open>isValid\<close> is set, and
  elsewhere the event changes nothing.

  A run is a schedule in which the calls do not overlap.  The program itself does not
  enforce this for the counter: the handler threads update \<^verbatim>\<open>windowCount\<close> with no lock
  held (the mutex guards \<^verbatim>\<open>windowIsFinished\<close> only), so the creation of one window and
  the end of another's message loop can overlap.  Such schedules are outside a run;
  \<open>overlapped_updates\<close> below shows what one of them does to the counter.
\<close>

datatype event =
    Ev_Initialise int int nat nat nat nat
  | Ev_CreateWindow "string option" int int int int WindowData handler_view HWND
  | Ev_PumpExit nat
  | Ev_WindowProc HWND UINT nat int int
  | Ev_MessageBox short string string "32 word" int

fun step :: "(MBF \<Rightarrow> 32 word) \<Rightarrow> event \<Rightarrow> WindowInfo \<Rightarrow> fault + WindowInfo" where
  "step mbf (Ev_Initialise iconId cursorId module icon cursor atom) s =
     (case Initialise iconId cursorId module icon cursor atom s of
        Inl e \<Rightarrow> Inl e | Inr (r, s') \<Rightarrow> Inr s')"
| "step mbf (Ev_CreateWindow name' width' height' xPos' yPos' fresh view created) s =
     (case CreateWindow name' width' height' xPos' yPos' fresh view created s of
        Inl e \<Rightarrow> Inl e | Inr (r, s') \<Rightarrow> Inr s')"
| "step mbf (Ev_PumpExit this) s =
     (if this < length (windows s) \<and> isValid (windows s ! this)
      then Inr (MessageHandler_exit this s) else Inr s)"
| "step mbf (Ev_WindowProc hWnd' uMsg wParam lParam def_result) s =
     Inr (snd (WindowProc hWnd' uMsg wParam lParam def_result s))"
| "step mbf (Ev_MessageBox owner title msg flags result) s =
     Inr (snd (MessageBox mbf owner title msg flags result s))"

fun run :: "(MBF \<Rightarrow> 32 word) \<Rightarrow> event list \<Rightarrow> WindowInfo \<Rightarrow> fault + WindowInfo" where
  "run mbf [] s = Inr s"
| "run mbf (ev # evs) s =
     (case step mbf ev s of Inl e \<Rightarrow> Inl e | Inr s' \<Rightarrow> run mbf evs s')"

text \<open>
  The windows of the list whose message loop has not ended: the handler clears
  \<^verbatim>\<open>isValid\<close> right behind the loop.
\<close>

definition pumping :: "WindowInfo \<Rightarrow> WindowData list" where
  "pumping s = filter isValid (windows s)"

text \<open>
  The windows of the list on which the program has not called \<^verbatim>\<open>DestroyWindow\<close>.
\<close>

definition not_destroyed :: "WindowInfo \<Rightarrow> WindowData list" where
  "not_destroyed s = filter (\<lambda>w. OS_DestroyWindow (hWnd w) \<notin> set (os_calls s)) (windows s)"

text \<open>
  The statements \<^verbatim>\<open>windowCount += 1\<close> and \<^verbatim>\<open>windowCount -= 1\<close> as two threads run them
  when they overlap: each thread loads the counter, then each stores its own result.
  The creating thread stores first, the thread behind the ended loop last.
\<close>

definition overlapped_updates :: "WindowInfo \<Rightarrow> WindowInfo" where
  "overlapped_updates s =
     (let loaded_by_creator = windowCount s;
          loaded_by_exit = windowCount s;
          s1 = s\<lparr>windowCount := wrap32 (loaded_by_creator + 1)\<rparr>
      in s1\<lparr>windowCount := wrap32 (loaded_by_exit - 1)\<rparr>)"

section \<open>Example states\<close>

text \<open>Two windows: the first has been closed, the second is open.\<close>

definition window_a :: WindowData where
  "window_a = \<lparr>hWnd = 5, name = Some ''first'', isValid = False,
     isVisible = False, win_id = 1, xPos = 0, yPos = 0, width = 640, height = 480\<rparr>"

definition window_b :: WindowData where
  "window_b = \<lparr>hWnd = 5, name = Some ''second'', isValid = True,
     isVisible = True, win_id = 2, xPos = 0, yPos = 0, width = 800, height = 600\<rparr>"

definition two_windows :: WindowInfo where
  "two_windows =
     \<lparr>windows = [window_a, window_b], windowCount = 1, windowsOpened = 2, lastErrorCode = 0,
      isInitialised = True, isRunning = True, windowIsFinished = False,
      hInstance = 1, hIcon = 0, hCursor = 0, classAtom = 1, os_calls = []\<rparr>"

text \<open>A table of flag values for the examples: one bit per flag.\<close>

fun example_MBF :: "MBF \<Rightarrow> 32 word" where
  "example_MBF TASKMODAL = 0x1"
| "example_MBF ICON_WARNING = 0x2"
| "example_MBF ICON_ERROR = 0x4"
| "example_MBF ICON_INFO = 0x8"
| "example_MBF ICON_QUESTION = 0x10"
| "example_MBF BUTTON_OK = 0x20"
| "example_MBF BUTTON_OK_CANCEL = 0x40"
| "example_MBF BUTTON_YES_NO = 0x80"
| "example_MBF BUTTON_RETRY_CANEL = 0x100"
| "example_MBF BUTTON_YES_NO_CANCEL = 0x200"
| "example_MBF BUTTON_ABORT_RETRY_IGNORE = 0x400"
| "example_MBF BUTTON_CANCEL_RETRY_CONTINUE = 0x800"

text \<open>The texts of the message boxes among the recorded system calls.\<close>

fun dialog_text :: "os_call \<Rightarrow> string option" where
  "dialog_text (OS_MessageBox owner text caption flags) = Some text"
| "dialog_text c = None"

definition dialogs :: "WindowInfo \<Rightarrow> string list" where
  "dialogs s = List.map_filter dialog_text (os_calls s)"

text \<open>
  The bookkeeping of the counters, in 32-bit arithmetic: \<^verbatim>\<open>windowCount\<close> counts the
  windows whose message loop has not ended, \<^verbatim>\<open>windowsOpened\<close> counts the windows of the
  list, and the window at position \<open>i\<close> carries the id \<open>i + 1\<close>.
\<close>

definition bookkeeping :: "WindowInfo \<Rightarrow> bool" where
  "bookkeeping s \<longleftrightarrow>
     windowCount s = wrap32 (int (length (pumping s))) \<and>
     windowsOpened s = wrap32 (int (length (windows s))) \<and>
     map win_id (windows s) = map (\<lambda>i. wrap32 (int i + 1)) [0..<length (windows s)]"

text \<open>
  A run for the examples: the framework is initialised, two windows are created, a
  third creation is refused (no name), and the message loop of the first window ends.
\<close>

definition all_seen :: handler_view where
  "all_seen = \<lparr>sees_name = True, sees_width = True, sees_height = True\<rparr>"

definition none_seen :: handler_view where
  "none_seen = \<lparr>sees_name = False, sees_width = False, sees_height = False\<rparr>"

definition example_run :: "event list" where
  "example_run =
     [Ev_Initialise 0 0 1 0 0 1,
      Ev_CreateWindow (Some ''first'') 640 480 0 0 window_a all_seen 5,
      Ev_CreateWindow (Some ''second'') 800 600 0 0 window_a none_seen 6,
      Ev_CreateWindow None 800 600 0 0 window_a all_seen 7,
      Ev_PumpExit 0]"

text \<open>
  A window is created and the window procedure gets \<^verbatim>\<open>WM_CLOSE\<close> for it; its message
  loop has not ended yet.
\<close>

definition closing_run :: "event list" where
  "closing_run =
     [Ev_Initialise 0 0 1 0 0 1,
      Ev_CreateWindow (Some ''first'') 640 480 0 0 window_a all_seen 5,
      Ev_WindowProc 5 WM_CLOSE 0 0 0]"

text \<open>The framework is initialised and \<open>n\<close> windows are created, one after the other.\<close>

definition creations :: "nat \<Rightarrow> event list" where
  "creations n =
     Ev_Initialise 0 0 1 0 0 1 #
     replicate n (Ev_CreateWindow (Some ''w'') 1 1 0 0 window_a all_seen 5)"

section \<open>Properties of the lookup\<close>



lemma id_loop_Some:
  "GetWindowData_id_loop n ws k = Some p \<Longrightarrow>
     k \<le> p \<and> p - k < length ws \<and> win_id (ws ! (p - k)) = n \<and> isValid (ws ! (p - k)) \<and>
     (\<forall>j < p - k. \<not> (win_id (ws ! j) = n \<and> isValid (ws ! j)))"
proof (induction ws arbitrary: k)
  case Nil
  then show ?case by simp
next
  case (Cons w ws)
  show ?case
  proof (cases "win_id w = n \<and> isValid w")
    case True
    with Cons.prems show ?thesis by auto
  next
    case False
    with Cons.prems have rec: "GetWindowData_id_loop n ws (Suc k) = Some p" by auto
    from Cons.IH [OF rec] have ih:
      "Suc k \<le> p" "p - Suc k < length ws" "win_id (ws ! (p - Suc k)) = n"
      "isValid (ws ! (p - Suc k))"
      "\<forall>j < p - Suc k. \<not> (win_id (ws ! j) = n \<and> isValid (ws ! j))"
      by auto
    from ih(1) have pk: "p - k = Suc (p - Suc k)" by arith
    have "\<forall>j < p - k. \<not> (win_id ((w # ws) ! j) = n \<and> isValid ((w # ws) ! j))"
    proof (intro allI impI)
      fix j assume "j < p - k"
      show "\<not> (win_id ((w # ws) ! j) = n \<and> isValid ((w # ws) ! j))"
      proof (cases j)
        case 0
        with False show ?thesis by simp
      next
        case (Suc j')
        with \<open>j < p - k\<close> pk have "j' < p - Suc k" by arith
        with ih(5) Suc show ?thesis by simp
      qed
    qed
    with ih pk show ?thesis by simp
  qed
qed

lemma id_loop_None:
  "GetWindowData_id_loop n ws k = None \<longleftrightarrow>
     (\<forall>w \<in> set ws. \<not> (win_id w = n \<and> isValid w))"
  by (induction ws arbitrary: k) auto



section \<open>The accessors\<close>

lemma id_loop_finds:
  "\<exists>w \<in> set ws. win_id w = n \<and> isValid w \<Longrightarrow> \<exists>p. GetWindowData_id_loop n ws k = Some p"
  using id_loop_None [of n ws k] by (cases "GetWindowData_id_loop n ws k") auto

text \<open>Without a valid window of the id asked for, the accessor dereferences null.\<close>

lemma GetWindowName_null:
  "\<forall>w \<in> set (windows s). \<not> (win_id w = sint n \<and> isValid w) \<Longrightarrow>
     GetWindowName n s = Inl NullDereference"
  using id_loop_None [of "sint n" "windows s" 0]
  by (simp add: GetWindowName_def GetWindowData_id_def)

text \<open>
  C10.  When the window list holds a valid window with the id asked for, the lookup
  inside each accessor returns a window \<open>p\<close> with that id that is valid (the first one
  in the list), never null, and the four accessors return the fields \<^verbatim>\<open>name\<close>,
  \<^verbatim>\<open>isVisible\<close>, \<^verbatim>\<open>width\<close> and \<^verbatim>\<open>height\<close> of that window.
\<close>

theorem accessors_return_fields:
  assumes "\<exists>w \<in> set (windows s). win_id w = sint n \<and> isValid w"
  shows "\<exists>p < length (windows s).
           GetWindowData_id (sint n) s = (Some p, s) \<and>
           win_id (windows s ! p) = sint n \<and> isValid (windows s ! p) \<and>
           (\<forall>j < p. \<not> (win_id (windows s ! j) = sint n \<and> isValid (windows s ! j))) \<and>
           GetWindowName n s = Inr (name (windows s ! p)) \<and>
           GetWindowVisibility n s = Inr (isVisible (windows s ! p)) \<and>
           GetWindowWidth n s = Inr (width (windows s ! p)) \<and>
           GetWindowHeight n s = Inr (height (windows s ! p))"
proof -
  from id_loop_finds [OF assms] obtain p
    where found: "GetWindowData_id_loop (sint n) (windows s) 0 = Some p" by blast
  from id_loop_Some [OF found] have p:
    "p < length (windows s)" "win_id (windows s ! p) = sint n" "isValid (windows s ! p)"
    "\<forall>j < p. \<not> (win_id (windows s ! j) = sint n \<and> isValid (windows s ! j))"
    by simp_all
  have look: "GetWindowData_id (sint n) s = (Some p, s)"
    using found by (simp add: GetWindowData_id_def)
  have "GetWindowName n s = Inr (name (windows s ! p))"
    "GetWindowVisibility n s = Inr (isVisible (windows s ! p))"
    "GetWindowWidth n s = Inr (width (windows s ! p))"
    "GetWindowHeight n s = Inr (height (windows s ! p))"
    using look
    by (simp_all add: GetWindowName_def GetWindowVisibility_def GetWindowWidth_def
        GetWindowHeight_def)
  with p look show ?thesis by blast
qed

text \<open>The example state has one valid window with the id 2, at position 1.\<close>

theorem accessors_return_fields_witness:
  "(\<exists>w \<in> set (windows two_windows). win_id w = sint (2 :: short) \<and> isValid w) \<and>
   GetWindowName 2 two_windows = Inr (Some ''second'') \<and>
   GetWindowVisibility 2 two_windows = Inr True \<and>
   GetWindowWidth 2 two_windows = Inr 800 \<and>
   GetWindowHeight 2 two_windows = Inr 600"
proof -
  have pre: "\<exists>w \<in> set (windows two_windows). win_id w = sint (2 :: short) \<and> isValid w"
    by (simp add: two_windows_def window_a_def window_b_def)
  from accessors_return_fields [OF pre] obtain p where
    p: "win_id (windows two_windows ! p) = sint (2 :: short)" "p < length (windows two_windows)"
    and fields: "GetWindowName 2 two_windows = Inr (name (windows two_windows ! p))"
      "GetWindowVisibility 2 two_windows = Inr (isVisible (windows two_windows ! p))"
      "GetWindowWidth 2 two_windows = Inr (width (windows two_windows ! p))"
      "GetWindowHeight 2 two_windows = Inr (height (windows two_windows ! p))"
    by blast
  from p have "p = 1"
    by (cases p) (simp_all add: two_windows_def window_a_def window_b_def)
  with fields pre show ?thesis
    by (simp add: two_windows_def window_b_def)
qed

section \<open>Validation in \<^verbatim>\<open>tsd::CreateWindow\<close>\<close>

text \<open>
  C8.  The three checks come first and in this order.  A call on a framework that is
  not initialised returns 0 and leaves the state as it was but for the last error code,
  which is 2; a call on an initialised framework with a null name, a width or a height
  that is not positive returns 0 and changes the last error code to 3 and nothing else.
  So in each of these cases the window list, both counters and the record of system
  calls (thread start, window creation) are as before.
\<close>

theorem CreateWindow_validation:
  "(\<not> isInitialised s \<longrightarrow>
      CreateWindow nm w h x y fresh view created s = Inr (0, s\<lparr>lastErrorCode := 2\<rparr>)) \<and>
   (isInitialised s \<and> (nm = None \<or> w \<le> 0 \<or> h \<le> 0) \<longrightarrow>
      CreateWindow nm w h x y fresh view created s = Inr (0, s\<lparr>lastErrorCode := 3\<rparr>)) \<and>
   (\<not> isInitialised s \<or> nm = None \<or> w \<le> 0 \<or> h \<le> 0 \<longrightarrow>
      (\<exists>s'. CreateWindow nm w h x y fresh view created s = Inr (0, s') \<and>
            GetLastError s' = (if isInitialised s then 3 else 2) \<and>
            windows s' = windows s \<and> windowCount s' = windowCount s \<and>
            windowsOpened s' = windowsOpened s \<and> os_calls s' = os_calls s))"
  by (auto simp add: CreateWindow_def SetLastError_def GetLastError_def)

theorem CreateWindow_validation_witness:
  "\<not> isInitialised (WindowInfo_init True) \<and>
   CreateWindow (Some ''w'') 640 480 0 0 window_a all_seen 7 (WindowInfo_init True)
     = Inr (0, (WindowInfo_init True)\<lparr>lastErrorCode := 2\<rparr>) \<and>
   isInitialised two_windows \<and>
   CreateWindow None 640 480 0 0 window_a all_seen 7 two_windows
     = Inr (0, two_windows\<lparr>lastErrorCode := 3\<rparr>) \<and>
   CreateWindow (Some ''w'') 640 0 0 0 window_a all_seen 7 two_windows
     = Inr (0, two_windows\<lparr>lastErrorCode := 3\<rparr>) \<and>
   CreateWindow (Some ''w'') (- 1) 480 0 0 window_a all_seen 7 two_windows
     = Inr (0, two_windows\<lparr>lastErrorCode := 3\<rparr>)"
  using CreateWindow_validation [of "WindowInfo_init True" "Some ''w''" 640 480 0 0 window_a all_seen 7]
    CreateWindow_validation [of two_windows None 640 480 0 0 window_a all_seen 7]
    CreateWindow_validation [of two_windows "Some ''w''" 640 0 0 0 window_a all_seen 7]
    CreateWindow_validation [of two_windows "Some ''w''" "- 1" 480 0 0 window_a all_seen 7]
  by (simp add: WindowInfo_init_def two_windows_def)

section \<open>Routing in the window procedure\<close>

text \<open>
  C3.  On \<^verbatim>\<open>WM_CLOSE\<close> the procedure calls \<^verbatim>\<open>DestroyWindow\<close> on the window (and then,
  past the \<^verbatim>\<open>break\<close>, hands the message to \<^verbatim>\<open>DefWindowProc\<close>).  On \<^verbatim>\<open>WM_DESTROY\<close> with
  \<^verbatim>\<open>GetWindowCount() == 1\<close> it clears the running flag and returns 0 without a call of
  the system.  Every other message, \<^verbatim>\<open>WM_DESTROY\<close> with another count included, goes to
  \<^verbatim>\<open>DefWindowProc\<close> alone, whose answer is returned.
\<close>

theorem WindowProc_routing:
  "(uMsg = WM_CLOSE \<longrightarrow>
      WindowProc hw uMsg wp lp def_result s =
        (def_result, s\<lparr>os_calls := os_calls s @
           [OS_DestroyWindow hw, OS_DefWindowProc hw uMsg wp lp]\<rparr>)) \<and>
   (uMsg = WM_DESTROY \<and> GetWindowCount s = 1 \<longrightarrow>
      WindowProc hw uMsg wp lp def_result s = (0, s\<lparr>isRunning := False\<rparr>) \<and>
      \<not> Running (snd (WindowProc hw uMsg wp lp def_result s))) \<and>
   (uMsg \<noteq> WM_CLOSE \<and> \<not> (uMsg = WM_DESTROY \<and> GetWindowCount s = 1) \<longrightarrow>
      WindowProc hw uMsg wp lp def_result s =
        (def_result, s\<lparr>os_calls := os_calls s @ [OS_DefWindowProc hw uMsg wp lp]\<rparr>))"
  by (auto simp add: WindowProc_def os_call_def Running_def WM_CLOSE_def WM_DESTROY_def)

text \<open>
  In the example state one window is open.  \<open>0x000F\<close> is \<^verbatim>\<open>WM_PAINT\<close>.
\<close>

theorem WindowProc_routing_witness:
  "GetWindowCount two_windows = 1 \<and>
   WindowProc 5 WM_CLOSE 0 0 0 two_windows =
     (0, two_windows\<lparr>os_calls := [OS_DestroyWindow 5, OS_DefWindowProc 5 WM_CLOSE 0 0]\<rparr>) \<and>
   WindowProc 5 WM_DESTROY 0 0 9 two_windows = (0, two_windows\<lparr>isRunning := False\<rparr>) \<and>
   WindowProc 5 WM_DESTROY 0 0 9 (two_windows\<lparr>windowCount := 2\<rparr>) =
     (9, two_windows\<lparr>windowCount := 2, os_calls := [OS_DefWindowProc 5 WM_DESTROY 0 0]\<rparr>) \<and>
   WindowProc 5 0x000F 0 0 9 two_windows =
     (9, two_windows\<lparr>os_calls := [OS_DefWindowProc 5 0x000F 0 0]\<rparr>)"
  using WindowProc_routing [of WM_CLOSE 5 0 0 0 two_windows]
    WindowProc_routing [of WM_DESTROY 5 0 0 9 two_windows]
    WindowProc_routing [of WM_DESTROY 5 0 0 9 "two_windows\<lparr>windowCount := 2\<rparr>"]
    WindowProc_routing [of "0x000F" 5 0 0 9 two_windows]
  by (simp add: GetWindowCount_def two_windows_def WM_CLOSE_def WM_DESTROY_def)

section \<open>The message box\<close>

text \<open>One step of the chain of conditionals, and the chain as a fold over the flags.\<close>

lemma rawFlags_as_fold:
  "MessageBox_rawFlags mbf flags =
     foldl (\<lambda>r f. if flags AND mbf f \<noteq> 0 then r OR MB_of f else r) 0 all_MBF"
  unfolding MessageBox_rawFlags_def all_MBF_def Let_def foldl.simps MB_of.simps
  by (rule refl)

lemma foldl_flags:
  "foldl (\<lambda>r f. if P f then r OR g f else r) (r0 :: 'a :: len word) fs =
     r0 OR foldr (OR) (map g (filter P fs)) 0"
  by (induction fs arbitrary: r0) (simp_all add: or.assoc)

lemma rawFlags_refines: "MessageBox_rawFlags mbf flags = rawFlags_spec mbf flags"
  by (simp only: rawFlags_as_fold foldl_flags rawFlags_spec_def or.left_neutral)

lemma bit_foldr_or:
  "bit (foldr (OR) xs (0 :: 'a :: len word)) k \<longleftrightarrow> (\<exists>x \<in> set xs. bit x k)"
  by (induction xs) (auto simp add: bit_or_iff)

lemma MessageBox_result_other:
  "r \<notin> {IDABORT, IDCANCEL, IDCONTINUE, IDIGNORE, IDNO, IDOK, IDRETRY, IDTRYAGAIN, IDYES}
     \<Longrightarrow> MessageBox_result r = CANCEL"
  by (simp add: MessageBox_result_def)

lemma MessageBox_result_nine:
  "MessageBox_result IDABORT = ABORT" "MessageBox_result IDCANCEL = CANCEL"
  "MessageBox_result IDCONTINUE = CONTINUE" "MessageBox_result IDIGNORE = IGNORE"
  "MessageBox_result IDNO = NO" "MessageBox_result IDOK = OK"
  "MessageBox_result IDRETRY = RETRY" "MessageBox_result IDTRYAGAIN = TRYAGAIN"
  "MessageBox_result IDYES = YES"
  by (simp_all add: MessageBox_result_def IDABORT_def IDCANCEL_def IDCONTINUE_def
      IDIGNORE_def IDNO_def IDOK_def IDRETRY_def IDTRYAGAIN_def IDYES_def)

text \<open>
  C4.  \<^verbatim>\<open>tsd::MessageBox\<close> makes one call of the system's message box and changes nothing
  else.  The flag word of that call is the disjunction of the Win32 constants of the
  flags set in the input: a bit is set in it exactly when it is set in the constant of
  some flag that is set.  The owner of the box is the handle of the valid window with
  the id \<open>owner\<close>, and the null handle when there is none.  Each of the nine button
  results is returned as the value of the same name, and any other result as \<open>CANCEL\<close>.
\<close>

theorem MessageBox_translates:
  "MessageBox mbf owner title msg flags result s =
     (MessageBox_result result,
      s\<lparr>os_calls := os_calls s @
         [OS_MessageBox
            (case fst (GetWindowData_id (sint owner) s) of
               Some i \<Rightarrow> hWnd (windows s ! i) | None \<Rightarrow> 0)
            msg title (MessageBox_rawFlags mbf flags)]\<rparr>) \<and>
   MessageBox_rawFlags mbf flags = rawFlags_spec mbf flags \<and>
   (\<forall>k. bit (MessageBox_rawFlags mbf flags) k \<longleftrightarrow>
          (\<exists>f. flags AND mbf f \<noteq> 0 \<and> bit (MB_of f) k)) \<and>
   ((\<forall>w \<in> set (windows s). \<not> (win_id w = sint owner \<and> isValid w)) \<longrightarrow>
      snd (MessageBox mbf owner title msg flags result s) =
        s\<lparr>os_calls := os_calls s @
           [OS_MessageBox 0 msg title (MessageBox_rawFlags mbf flags)]\<rparr>) \<and>
   MessageBox_result IDABORT = ABORT \<and> MessageBox_result IDCANCEL = CANCEL \<and>
   MessageBox_result IDCONTINUE = CONTINUE \<and> MessageBox_result IDIGNORE = IGNORE \<and>
   MessageBox_result IDNO = NO \<and> MessageBox_result IDOK = OK \<and>
   MessageBox_result IDRETRY = RETRY \<and> MessageBox_result IDTRYAGAIN = TRYAGAIN \<and>
   MessageBox_result IDYES = YES \<and>
   (result \<notin> {IDABORT, IDCANCEL, IDCONTINUE, IDIGNORE, IDNO, IDOK, IDRETRY, IDTRYAGAIN, IDYES}
      \<longrightarrow> fst (MessageBox mbf owner title msg flags result s) = CANCEL)"
proof -
  have call: "MessageBox mbf owner title msg flags result s =
     (MessageBox_result result,
      s\<lparr>os_calls := os_calls s @
         [OS_MessageBox
            (case fst (GetWindowData_id (sint owner) s) of
               Some i \<Rightarrow> hWnd (windows s ! i) | None \<Rightarrow> 0)
            msg title (MessageBox_rawFlags mbf flags)]\<rparr>)"
    by (simp add: MessageBox_def os_call_def Let_def)
  have all_flags: "f \<in> set all_MBF" for f
    by (cases f) (simp_all add: all_MBF_def)
  have bits: "bit (MessageBox_rawFlags mbf flags) k \<longleftrightarrow>
      (\<exists>f. flags AND mbf f \<noteq> 0 \<and> bit (MB_of f) k)" for k
    using all_flags by (auto simp add: rawFlags_refines rawFlags_spec_def bit_foldr_or)
  have no_owner: "snd (MessageBox mbf owner title msg flags result s) =
        s\<lparr>os_calls := os_calls s @
           [OS_MessageBox 0 msg title (MessageBox_rawFlags mbf flags)]\<rparr>"
    if "\<forall>w \<in> set (windows s). \<not> (win_id w = sint owner \<and> isValid w)"
    using that id_loop_None [of "sint owner" "windows s" 0]
    by (simp add: call GetWindowData_id_def)
  have other: "fst (MessageBox mbf owner title msg flags result s) = CANCEL"
    if "result \<notin> {IDABORT, IDCANCEL, IDCONTINUE, IDIGNORE, IDNO, IDOK, IDRETRY, IDTRYAGAIN, IDYES}"
    using MessageBox_result_other [OF that] by (simp add: call)
  from call rawFlags_refines [of mbf flags] bits no_owner other MessageBox_result_nine
  show ?thesis by blast
qed

text \<open>
  With the example table, the flags \<open>ICON_ERROR\<close> and \<open>BUTTON_YES_NO\<close> give
  \<^verbatim>\<open>MB_ICONERROR | MB_YESNO\<close>; no valid window has the id 9, so the owner is null;
  the window with the id 2 has the handle 5; the result 0 is none of the nine.
\<close>

theorem MessageBox_translates_witness:
  "fst (GetWindowData_id (sint (9 :: short)) two_windows) = None \<and>
   snd (MessageBox example_MBF 9 ''title'' ''text'' 0x84 IDYES two_windows) =
     two_windows\<lparr>os_calls := [OS_MessageBox 0 ''text'' ''title'' 0x14]\<rparr> \<and>
   MessageBox example_MBF 9 ''title'' ''text'' 0x84 IDYES two_windows =
     (YES, two_windows\<lparr>os_calls := [OS_MessageBox 0 ''text'' ''title'' 0x14]\<rparr>) \<and>
   MessageBox example_MBF 2 ''title'' ''text'' 0x1 IDOK two_windows =
     (OK, two_windows\<lparr>os_calls := [OS_MessageBox 5 ''text'' ''title'' 0x2000]\<rparr>) \<and>
   (0 :: int) \<notin> {IDABORT, IDCANCEL, IDCONTINUE, IDIGNORE, IDNO, IDOK, IDRETRY, IDTRYAGAIN, IDYES} \<and>
   fst (MessageBox example_MBF 9 ''title'' ''text'' 0x84 0 two_windows) = CANCEL"
proof -
  have no9: "\<forall>w \<in> set (windows two_windows). \<not> (win_id w = sint (9 :: short) \<and> isValid w)"
    by (simp add: two_windows_def window_a_def window_b_def)
  have other: "(0 :: int) \<notin>
      {IDABORT, IDCANCEL, IDCONTINUE, IDIGNORE, IDNO, IDOK, IDRETRY, IDTRYAGAIN, IDYES}"
    by (simp add: IDABORT_def IDCANCEL_def IDCONTINUE_def IDIGNORE_def IDNO_def IDOK_def
        IDRETRY_def IDTRYAGAIN_def IDYES_def)
  have raw1: "MessageBox_rawFlags example_MBF 0x84 = 0x14"
    by (simp add: MessageBox_rawFlags_def MB_ICONERROR_def MB_YESNO_def)
  have raw2: "MessageBox_rawFlags example_MBF 0x1 = 0x2000"
    by (simp add: MessageBox_rawFlags_def MB_TASKMODAL_def)
  have owner2: "fst (GetWindowData_id (sint (2 :: short)) two_windows) = Some 1"
    by (simp add: GetWindowData_id_def two_windows_def window_a_def window_b_def)
  have owner9: "fst (GetWindowData_id (sint (9 :: short)) two_windows) = None"
    by (simp add: GetWindowData_id_def two_windows_def window_a_def window_b_def)
  note a = MessageBox_translates [of example_MBF 9 "''title''" "''text''" "0x84" IDYES two_windows]
  note b = MessageBox_translates [of example_MBF 2 "''title''" "''text''" "0x1" IDOK two_windows]
  note c = MessageBox_translates [of example_MBF 9 "''title''" "''text''" "0x84" 0 two_windows]
  have 1: "MessageBox example_MBF 9 ''title'' ''text'' 0x84 IDYES two_windows =
     (YES, two_windows\<lparr>os_calls := [OS_MessageBox 0 ''text'' ''title'' 0x14]\<rparr>)"
    using a raw1 owner9 by (simp add: two_windows_def)
  have 2: "MessageBox example_MBF 2 ''title'' ''text'' 0x1 IDOK two_windows =
     (OK, two_windows\<lparr>os_calls := [OS_MessageBox 5 ''text'' ''title'' 0x2000]\<rparr>)"
    using b raw2 owner2 by (simp add: two_windows_def window_b_def)
  have 3: "fst (MessageBox example_MBF 9 ''title'' ''text'' 0x84 0 two_windows) = CANCEL"
    using c other by blast
  have none: "os_calls two_windows = []"
    by (simp add: two_windows_def)
  from a no9 have "snd (MessageBox example_MBF 9 ''title'' ''text'' 0x84 IDYES two_windows) =
     two_windows\<lparr>os_calls := os_calls two_windows @
       [OS_MessageBox 0 ''text'' ''title'' (MessageBox_rawFlags example_MBF 0x84)]\<rparr>"
    by blast
  then have 4: "snd (MessageBox example_MBF 9 ''title'' ''text'' 0x84 IDYES two_windows) =
     two_windows\<lparr>os_calls := [OS_MessageBox 0 ''text'' ''title'' 0x14]\<rparr>"
    by (simp only: raw1 none append_Nil)
  from owner9 4 1 2 other 3 show ?thesis by blast
qed

section \<open>Error reports\<close>

lemma show_nat_digit: "n < 10 \<Longrightarrow> show_nat n = [digit_char n]"
  by (subst show_nat.simps) simp

lemma sublist_skip: "sublist xs zs \<Longrightarrow> sublist xs (ys @ zs)"
  by (auto simp add: sublist_def) (metis append.assoc)

text \<open>
  C5, as the code has it.  When \<^verbatim>\<open>FormatMessage\<close> yields a text, the debug translator
  shows one dialog whose text holds the decimal error code, the decimal line and the
  system's text, and throws.  When it yields none, the dialog holds a fixed text, the
  same for every code and line, and the function throws.  The release translator
  writes a text holding the decimal code and line to \<^verbatim>\<open>Last_Log.txt\<close>, shows one
  dialog, and throws.
\<close>

theorem Win32_error_reports:
  "(\<exists>msg. CreateWin32DebugError line e (Some text) s =
        (Inl StdException,
         s\<lparr>os_calls := os_calls s @
            [OS_MessageBox 0 msg ''Internal Error!'' (MB_ICONERROR OR MB_TASKMODAL OR MB_OK),
             OS_LocalFree]\<rparr>) \<and>
        sublist (show_int (sint e)) msg \<and> sublist (show_int line) msg \<and> sublist text msg) \<and>
   CreateWin32DebugError line e None s =
     (Inl StdException,
      s\<lparr>os_calls := os_calls s @
         [OS_MessageBox 0
            (''An Error occoured which even the error handler could not handle. This is usually caused by the error message being to long''
               @ newline @ newline @ ''I guess I fucked up...'' @ newline)
            ''Internal Error!'' (MB_ICONERROR OR MB_TASKMODAL OR MB_OK),
          OS_LocalFree]\<rparr>) \<and>
   (\<exists>file msg. CreateWin32ReleaseError line e timestamp s =
        (Inl StdException,
         s\<lparr>os_calls := os_calls s @
            [OS_WriteFile ''Last_Log.txt'' file,
             OS_MessageBox 0 msg ''Critical Error!'' (MB_TASKMODAL OR MB_OK OR MB_ICONERROR)]\<rparr>) \<and>
        sublist (show_int (sint e)) file \<and> sublist (show_int line) file)"
proof -
  define msg where "msg =
     ''A Win32 API call resulted in a fatal error '' @ show_int (sint e) @
     '' at line '' @ show_int line @ '' in the source of the framework.'' @
     newline @ newline @ text @
     newline @ ''This is an internal error likely caused by the framework itself, the application must quit now.'' @ newline"
  have "sublist (show_int (sint e)) msg"
    unfolding msg_def by (rule sublist_appendI)
  moreover have "sublist (show_int line) msg"
    unfolding msg_def
    by (rule sublist_skip, rule sublist_skip, rule sublist_skip, rule sublist_append_rightI)
  moreover have "sublist text msg"
    unfolding msg_def
    by (rule sublist_skip, rule sublist_skip, rule sublist_skip, rule sublist_skip,
        rule sublist_skip, rule sublist_skip, rule sublist_skip, rule sublist_append_rightI)
  moreover have "CreateWin32DebugError line e (Some text) s =
        (Inl StdException,
         s\<lparr>os_calls := os_calls s @
            [OS_MessageBox 0 msg ''Internal Error!'' (MB_ICONERROR OR MB_TASKMODAL OR MB_OK),
             OS_LocalFree]\<rparr>)"
    unfolding msg_def by (simp add: CreateWin32DebugError_def os_call_def)
  ultimately have debug_some: "\<exists>msg. CreateWin32DebugError line e (Some text) s =
        (Inl StdException,
         s\<lparr>os_calls := os_calls s @
            [OS_MessageBox 0 msg ''Internal Error!'' (MB_ICONERROR OR MB_TASKMODAL OR MB_OK),
             OS_LocalFree]\<rparr>) \<and>
        sublist (show_int (sint e)) msg \<and> sublist (show_int line) msg \<and> sublist text msg"
    by blast
  have debug_none: "CreateWin32DebugError line e None s =
     (Inl StdException,
      s\<lparr>os_calls := os_calls s @
         [OS_MessageBox 0
            (''An Error occoured which even the error handler could not handle. This is usually caused by the error message being to long''
               @ newline @ newline @ ''I guess I fucked up...'' @ newline)
            ''Internal Error!'' (MB_ICONERROR OR MB_TASKMODAL OR MB_OK),
          OS_LocalFree]\<rparr>)"
    by (simp add: CreateWin32DebugError_def os_call_def)
  define log where "log =
     ''[ '' @ timestamp @ '' ]: '' @ ''Unhandled Win32 error! '' @ show_int (sint e) @
     '' at '' @ show_int line @ newline @
     ''[ '' @ timestamp @ '' ]: '' @ ''Fatal Error, application must abort!'' @ newline"
  have "sublist (show_int (sint e)) log"
    unfolding log_def
    by (rule sublist_skip, rule sublist_skip, rule sublist_skip, rule sublist_skip,
        rule sublist_append_rightI)
  moreover have "sublist (show_int line) log"
    unfolding log_def
    by (rule sublist_skip, rule sublist_skip, rule sublist_skip, rule sublist_skip,
        rule sublist_skip, rule sublist_skip, rule sublist_append_rightI)
  moreover have "\<exists>msg. CreateWin32ReleaseError line e timestamp s =
        (Inl StdException,
         s\<lparr>os_calls := os_calls s @
            [OS_WriteFile ''Last_Log.txt'' log,
             OS_MessageBox 0 msg ''Critical Error!'' (MB_TASKMODAL OR MB_OK OR MB_ICONERROR)]\<rparr>)"
  proof -
    define dlg where "dlg =
       ''A critical error occoured, the application must quit now!'' @ newline @ newline @
       ''For more information check the logfiles in the application'' @
       '' directory'' @ newline"
    have "CreateWin32ReleaseError line e timestamp s =
        (Inl StdException,
         s\<lparr>os_calls := os_calls s @
            [OS_WriteFile ''Last_Log.txt'' log,
             OS_MessageBox 0 dlg ''Critical Error!'' (MB_TASKMODAL OR MB_OK OR MB_ICONERROR)]\<rparr>)"
      unfolding log_def dlg_def by (simp add: CreateWin32ReleaseError_def os_call_def)
    then show ?thesis by blast
  qed
  ultimately have release: "\<exists>file msg. CreateWin32ReleaseError line e timestamp s =
        (Inl StdException,
         s\<lparr>os_calls := os_calls s @
            [OS_WriteFile ''Last_Log.txt'' file,
             OS_MessageBox 0 msg ''Critical Error!'' (MB_TASKMODAL OR MB_OK OR MB_ICONERROR)]\<rparr>) \<and>
        sublist (show_int (sint e)) file \<and> sublist (show_int line) file"
    by blast
  from debug_some debug_none release show ?thesis by blast
qed

lemma show_int_5: "show_int (sint (5 :: DWORD)) = ''5''"
  by (simp add: show_int_def show_nat_digit digit_char_def)

lemma show_int_32: "show_int 32 = ''32''"
  by (simp add: show_int_def show_nat.simps [of 32] show_nat_digit digit_char_def)

lemma fallback_dialog:
  "dialogs (snd (CreateWin32DebugError 32 5 None (WindowInfo_init True))) =
     [''An Error occoured which even the error handler could not handle. This is usually caused by the error message being to long''
        @ newline @ newline @ ''I guess I fucked up...'' @ newline]"
  by (simp add: CreateWin32DebugError_def os_call_def WindowInfo_init_def dialogs_def
      List.map_filter_simps)

text \<open>
  C5 as stated fails where \<^verbatim>\<open>FormatMessage\<close> yields no text: for the error code 5 at
  line 32 the one dialog shown holds neither \<open>5\<close> nor \<open>32\<close>.
\<close>

theorem Win32_debug_fallback_omits_code:
  "length (dialogs (snd (CreateWin32DebugError 32 5 None (WindowInfo_init True)))) = 1 \<and>
   \<not> sublist (show_int (sint (5 :: DWORD)))
       (hd (dialogs (snd (CreateWin32DebugError 32 5 None (WindowInfo_init True))))) \<and>
   \<not> sublist (show_int 32)
       (hd (dialogs (snd (CreateWin32DebugError 32 5 None (WindowInfo_init True)))))"
proof -
  let ?t = "''An Error occoured which even the error handler could not handle. This is usually caused by the error message being to long''
        @ newline @ newline @ ''I guess I fucked up...'' @ newline"
  have no5: "\<not> sublist ''5'' ?t"
  proof
    assume "sublist ''5'' ?t"
    from set_mono_sublist [OF this] show False by (simp add: newline_def)
  qed
  have no32: "\<not> sublist ''32'' ?t"
  proof
    assume "sublist ''32'' ?t"
    from set_mono_sublist [OF this] show False by (simp add: newline_def)
  qed
  from no5 no32 show ?thesis
    by (simp only: fallback_dialog show_int_5 show_int_32 list.sel list.size) simp
qed

text \<open>The release and the debug report of the framework's own errors.\<close>

lemma CreateAutoReleaseError_empty:
  "CreateAutoReleaseError line quit s = (Inr (), s)"
  by (simp add: CreateAutoReleaseError_def)

lemma CreateAutoDebugError_reports:
  "\<exists>msg. CreateAutoDebugError errors line quit s =
      (if quit then Inl StdException else Inr (),
       s\<lparr>os_calls := os_calls s @
          [OS_MessageBox 0 msg ''Error!'' (MB_TASKMODAL OR MB_OK OR MB_ICONERROR)]\<rparr>) \<and>
      sublist (show_int (GetLastError s)) msg \<and> sublist (show_int line) msg \<and>
      sublist (GetErrorInformation errors (GetLastError s)) msg"
proof -
  define msg where "msg =
     ''Error '' @ show_int (GetLastError s) @ '' has occoured at line '' @
     show_int line @ ''.'' @ newline @ newline @
     GetErrorInformation errors (GetLastError s) @ newline @ newline @
     (if quit then ''The application must quit now.'' else [])"
  have "sublist (show_int (GetLastError s)) msg"
    unfolding msg_def by (rule sublist_appendI)
  moreover have "sublist (show_int line) msg"
    unfolding msg_def
    by (rule sublist_skip, rule sublist_skip, rule sublist_skip, rule sublist_append_rightI)
  moreover have "sublist (GetErrorInformation errors (GetLastError s)) msg"
    unfolding msg_def
    by (rule sublist_skip, rule sublist_skip, rule sublist_skip, rule sublist_skip,
        rule sublist_skip, rule sublist_skip, rule sublist_skip, rule sublist_append_rightI)
  moreover have "CreateAutoDebugError errors line quit s =
      (if quit then Inl StdException else Inr (),
       s\<lparr>os_calls := os_calls s @
          [OS_MessageBox 0 msg ''Error!'' (MB_TASKMODAL OR MB_OK OR MB_ICONERROR)]\<rparr>)"
    unfolding msg_def by (simp add: CreateAutoDebugError_def os_call_def Let_def)
  ultimately show ?thesis by blast
qed

text \<open>
  C6.  \<^verbatim>\<open>tsd::CreateAutoReleaseError\<close> has an empty body: whatever the stored error code
  and the line, it shows no dialog, writes no log and does not throw, also when \<open>quit\<close>
  is set.  Its debug counterpart, called with the same arguments, shows a dialog with
  the code, the line and the error information, and throws when \<open>quit\<close> is set.
  Here both run in the example state with the stored error code 3 (as after a refused
  \<^verbatim>\<open>CreateWindow\<close>), at line 42 with \<open>quit\<close> set: the release function returns
  normally and leaves the record of system calls empty; the debug function shows one
  dialog and throws.
\<close>

theorem CreateAutoReleaseError_reports_nothing:
  "GetLastError (two_windows\<lparr>lastErrorCode := 3\<rparr>) = 3 \<and>
   CreateAutoReleaseError 42 True (two_windows\<lparr>lastErrorCode := 3\<rparr>) =
     (Inr (), two_windows\<lparr>lastErrorCode := 3\<rparr>) \<and>
   os_calls (snd (CreateAutoReleaseError 42 True (two_windows\<lparr>lastErrorCode := 3\<rparr>))) = [] \<and>
   fst (CreateAutoDebugError Map.empty 42 True (two_windows\<lparr>lastErrorCode := 3\<rparr>)) =
     Inl StdException \<and>
   length (dialogs (snd (CreateAutoDebugError Map.empty 42 True
     (two_windows\<lparr>lastErrorCode := 3\<rparr>)))) = 1"
  by (simp add: CreateAutoReleaseError_def CreateAutoDebugError_def GetLastError_def
      two_windows_def os_call_def dialogs_def List.map_filter_simps Let_def)

section \<open>Counters and ids along a run\<close>

text \<open>Arithmetic in 32 bits.\<close>

lemma wrap32_add: "wrap32 (wrap32 a + b) = wrap32 (a + b)"
  by (simp add: wrap32_def)

lemma wrap32_add2: "wrap32 (b + wrap32 a) = wrap32 (b + a)"
  by (simp add: wrap32_def)

lemma wrap32_diff: "wrap32 (wrap32 a - b) = wrap32 (a - b)"
  by (simp add: wrap32_def)

lemma wrap32_id: "- 2147483648 \<le> x \<Longrightarrow> x < 2147483648 \<Longrightarrow> wrap32 x = x"
  by (simp add: wrap32_def sint_sbintrunc' signed_take_bit_int_eq_self)

text \<open>What a call of \<^verbatim>\<open>tsd::CreateWindow\<close> does to the list and the counters.\<close>

lemma CreateWindow_cases:
  assumes "CreateWindow nm w h x y fresh view created s = Inr (r, s')"
  shows "(r = 0 \<and> windows s' = windows s \<and> windowCount s' = windowCount s \<and>
          windowsOpened s' = windowsOpened s) \<or>
         (\<exists>w'. windows s' = windows s @ [w'] \<and> isValid w' \<and>
               hWnd w' = created \<and> created \<noteq> 0 \<and>
               win_id w' = wrap32 (windowsOpened s + 1) \<and> r = word_of_int (win_id w') \<and>
               windowsOpened s' = wrap32 (windowsOpened s + 1) \<and>
               windowCount s' = wrap32 (windowCount s + 1))"
  using assms
  by (auto simp add: CreateWindow_def MessageHandler_create_def Let_def os_call_def
      SetLastError_def split: if_splits)

lemma CreateWindow_success:
  assumes "isInitialised s" "nm \<noteq> None" "0 < w" "0 < h" "created \<noteq> 0"
  shows "\<exists>s' w'. CreateWindow nm w h x y fresh view created s =
            Inr (word_of_int (wrap32 (windowsOpened s + 1)), s') \<and>
          windows s' = windows s @ [w'] \<and> isValid w' \<and>
          hWnd w' = created \<and> name w' = nm \<and> width w' = w \<and> height w' = h \<and>
          win_id w' = wrap32 (windowsOpened s + 1) \<and>
          windowsOpened s' = wrap32 (windowsOpened s + 1) \<and>
          windowCount s' = wrap32 (windowCount s + 1) \<and>
          isInitialised s'"
  using assms
  by (auto simp add: CreateWindow_def MessageHandler_create_def Let_def os_call_def)

text \<open>
  The returned \<^verbatim>\<open>short\<close> is not always the id: the creation that follows 65535 others
  gives the window the id 65536 and returns 0, the value of a refused call.
\<close>

lemma CreateWindow_returns_0_for_65536:
  assumes "isInitialised s" "windowsOpened s = 65535"
  shows "\<exists>s' w'. CreateWindow (Some ''w'') 1 1 0 0 fresh view 5 s = Inr (0, s') \<and>
          windows s' = windows s @ [w'] \<and> win_id w' = 65536"
proof -
  from CreateWindow_success [of s "Some ''w''" 1 1 5 0 0 fresh view] assms(1)
  obtain s' w' where c: "CreateWindow (Some ''w'') 1 1 0 0 fresh view 5 s =
      Inr (word_of_int (wrap32 (windowsOpened s + 1)), s')"
    "windows s' = windows s @ [w']" "win_id w' = wrap32 (windowsOpened s + 1)"
    by auto
  have "wrap32 (65535 + 1) = 65536" by (simp add: wrap32_def)
  moreover have "(word_of_int 65536 :: short) = 0" by simp
  ultimately show ?thesis using c assms(2) by auto
qed

lemma Initialise_frame:
  assumes "Initialise iconId cursorId module icon cursor atom s = Inr (r, s')"
  shows "windows s' = windows s \<and> windowCount s' = windowCount s \<and>
         windowsOpened s' = windowsOpened s \<and> isInitialised s'"
  using assms
  by (auto simp add: Initialise_def Let_def SetLastError_def split: if_splits)

lemma filter_update_length:
  "i < length xs \<Longrightarrow> P (xs ! i) \<Longrightarrow> \<not> P y \<Longrightarrow>
     Suc (length (filter P (xs[i := y]))) = length (filter P xs)"
proof (induction xs arbitrary: i)
  case Nil
  then show ?case by simp
next
  case (Cons x xs)
  then show ?case by (cases i) auto
qed

lemma MessageHandler_exit_effect:
  assumes "this < length (windows s)" "isValid (windows s ! this)"
  shows "windowCount (MessageHandler_exit this s) = wrap32 (windowCount s - 1) \<and>
         Suc (length (pumping (MessageHandler_exit this s))) = length (pumping s) \<and>
         map win_id (windows (MessageHandler_exit this s)) = map win_id (windows s) \<and>
         length (windows (MessageHandler_exit this s)) = length (windows s) \<and>
         windowsOpened (MessageHandler_exit this s) = windowsOpened s"
proof -
  have "Suc (length (filter isValid
           ((windows s)[this := (windows s ! this)\<lparr>isValid := False\<rparr>])))
        = length (filter isValid (windows s))"
    using assms by (intro filter_update_length) simp_all
  moreover have "map win_id ((windows s)[this := (windows s ! this)\<lparr>isValid := False\<rparr>])
     = map win_id (windows s)"
    using assms(1) by (simp add: map_update list_update_same_conv)
  ultimately show ?thesis
    by (simp add: MessageHandler_exit_def Let_def pumping_def)
qed

lemma step_bookkeeping:
  assumes "bookkeeping s" "step mbf ev s = Inr s'"
  shows "bookkeeping s'"
proof (cases ev)
  case (Ev_Initialise a b c d e f)
  with assms(2) obtain r where "Initialise a b c d e f s = Inr (r, s')"
    by (auto split: sum.splits)
  from Initialise_frame [OF this] assms(1) show ?thesis
    by (simp add: bookkeeping_def pumping_def)
next
  case (Ev_CreateWindow nm w h x y fresh view created)
  with assms(2) obtain r where c: "CreateWindow nm w h x y fresh view created s = Inr (r, s')"
    by (auto split: sum.splits)
  from CreateWindow_cases [OF c] show ?thesis
  proof (elim disjE exE conjE)
    assume "windows s' = windows s" "windowCount s' = windowCount s"
      "windowsOpened s' = windowsOpened s"
    with assms(1) show ?thesis by (simp add: bookkeeping_def pumping_def)
  next
    fix w'
    assume new: "windows s' = windows s @ [w']" "isValid w'"
      "win_id w' = wrap32 (windowsOpened s + 1)"
      "windowsOpened s' = wrap32 (windowsOpened s + 1)"
      "windowCount s' = wrap32 (windowCount s + 1)"
    from assms(1) have b: "windowCount s = wrap32 (int (length (pumping s)))"
      "windowsOpened s = wrap32 (int (length (windows s)))"
      "map win_id (windows s) = map (\<lambda>i. wrap32 (int i + 1)) [0..<length (windows s)]"
      by (simp_all add: bookkeeping_def)
    have "windowCount s' = wrap32 (int (length (pumping s')))"
      using new b(1) by (simp add: pumping_def wrap32_add wrap32_add2 add.commute)
    moreover have o: "windowsOpened s' = wrap32 (int (length (windows s')))"
      using new b(2) by (simp add: wrap32_add wrap32_add2 add.commute)
    moreover have "map win_id (windows s') =
        map (\<lambda>i. wrap32 (int i + 1)) [0..<length (windows s')]"
      using new b(2,3) by (simp add: wrap32_add wrap32_add2 add.commute)
    ultimately show ?thesis by (simp add: bookkeeping_def)
  qed
next
  case (Ev_PumpExit this)
  show ?thesis
  proof (cases "this < length (windows s) \<and> isValid (windows s ! this)")
    case True
    with assms(2) Ev_PumpExit have s': "s' = MessageHandler_exit this s" by simp
    from True MessageHandler_exit_effect [of this s] have e:
      "windowCount s' = wrap32 (windowCount s - 1)"
      "Suc (length (pumping s')) = length (pumping s)"
      "map win_id (windows s') = map win_id (windows s)"
      "length (windows s') = length (windows s)"
      "windowsOpened s' = windowsOpened s"
      unfolding s' by simp_all
    from assms(1) have b: "windowCount s = wrap32 (int (length (pumping s)))"
      "windowsOpened s = wrap32 (int (length (windows s)))"
      "map win_id (windows s) = map (\<lambda>i. wrap32 (int i + 1)) [0..<length (windows s)]"
      by (simp_all add: bookkeeping_def)
    have "windowCount s' = wrap32 (int (length (pumping s')))"
      using e(1) b(1) e(2) [symmetric] by (simp add: wrap32_diff)
    with e b show ?thesis by (simp add: bookkeeping_def)
  next
    case False
    with assms Ev_PumpExit show ?thesis by auto
  qed
next
  case (Ev_WindowProc hw uMsg wp lp d)
  with assms show ?thesis
    by (auto simp add: bookkeeping_def pumping_def WindowProc_def os_call_def Let_def
        split: if_splits)
next
  case (Ev_MessageBox owner title msg flags result)
  with assms show ?thesis
    by (auto simp add: bookkeeping_def pumping_def MessageBox_def os_call_def Let_def)
qed

lemma run_bookkeeping:
  "bookkeeping s \<Longrightarrow> run mbf evs s = Inr s' \<Longrightarrow> bookkeeping s'"
proof (induction evs arbitrary: s)
  case Nil
  then show ?case by simp
next
  case (Cons ev evs)
  from Cons.prems(2) obtain s1 where s1: "step mbf ev s = Inr s1" "run mbf evs s1 = Inr s'"
    by (auto split: sum.splits)
  from step_bookkeeping [OF Cons.prems(1) s1(1)] Cons.IH s1(2) show ?case by blast
qed

lemma init_bookkeeping: "bookkeeping (WindowInfo_init b)"
  by (simp add: bookkeeping_def WindowInfo_init_def pumping_def wrap32_def)

text \<open>A run of \<open>n\<close> creations ends with \<open>n\<close> windows in the list.\<close>

lemma run_append:
  "run mbf (xs @ ys) s = (case run mbf xs s of Inl e \<Rightarrow> Inl e | Inr s' \<Rightarrow> run mbf ys s')"
  by (induction xs arbitrary: s) (auto split: sum.splits)

lemma creations_Suc:
  "creations (Suc n) =
     creations n @ [Ev_CreateWindow (Some ''w'') 1 1 0 0 window_a all_seen 5]"
  by (simp add: creations_def replicate_append_same)

lemma run_creations:
  "\<exists>t. run mbf (creations n) (WindowInfo_init b) = Inr t \<and> isInitialised t \<and>
       length (windows t) = n"
proof (induction n)
  case 0
  show ?case
    by (simp add: creations_def WindowInfo_init_def Initialise_def Let_def)
next
  case (Suc n)
  then obtain t where t: "run mbf (creations n) (WindowInfo_init b) = Inr t"
    "isInitialised t" "length (windows t) = n"
    by blast
  from CreateWindow_success [of t "Some ''w''" 1 1 5 0 0 window_a all_seen] t(2)
  obtain t' w' where c: "CreateWindow (Some ''w'') 1 1 0 0 window_a all_seen 5 t =
      Inr (word_of_int (wrap32 (windowsOpened t + 1)), t')"
    "windows t' = windows t @ [w']" "isInitialised t'"
    by auto
  from t c have "run mbf (creations (Suc n)) (WindowInfo_init b) = Inr t'"
    by (simp add: creations_Suc run_append)
  with c t(3) show ?case by simp
qed

text \<open>
  The example runs: one ends with two windows, the first closed and the second open; the
  other with one window on which \<^verbatim>\<open>DestroyWindow\<close> has been called.
\<close>

lemma example_run_result:
  "\<exists>t. run example_MBF example_run (WindowInfo_init True) = Inr t \<and>
       windowCount t = 1 \<and> windowsOpened t = 2 \<and>
       map win_id (windows t) = [1, 2] \<and>
       map isValid (windows t) = [False, True] \<and>
       length (filter isValid (windows t)) = 1"
  by (simp add: example_run_def WindowInfo_init_def Initialise_def CreateWindow_def
      MessageHandler_create_def MessageHandler_exit_def SetLastError_def os_call_def
      window_a_def all_seen_def none_seen_def Let_def wrap32_def)

lemma closing_run_result:
  "\<exists>t. run example_MBF closing_run (WindowInfo_init True) = Inr t \<and>
       windowCount t = 1 \<and> map hWnd (windows t) = [5] \<and> map isValid (windows t) = [True] \<and>
       os_calls t = [SpawnThread, OS_CreateWindowEx (Some ''first'') 640 480, OS_ShowWindow 5 1,
         OS_DestroyWindow 5, OS_DefWindowProc 5 WM_CLOSE 0 0]"
  by (simp add: closing_run_def WindowInfo_init_def Initialise_def CreateWindow_def
      MessageHandler_create_def SetLastError_def os_call_def WindowProc_def
      window_a_def all_seen_def Let_def wrap32_def)

text \<open>
  Outside the runs: when the creation of one window and the end of another's message
  loop overlap as in \<open>overlapped_updates\<close>, the counter ends one lower, although one loop
  has started and one has ended.
\<close>

lemma overlapped_updates_lose_one:
  "windowCount (overlapped_updates s) = wrap32 (windowCount s - 1)"
  by (simp add: overlapped_updates_def Let_def)

text \<open>
  C2, as the code has it.  A call of \<^verbatim>\<open>tsd::CreateWindow\<close> that creates a window (the
  framework is initialised, the arguments pass the checks, \<^verbatim>\<open>CreateWindowEx\<close> answers a
  handle) adds one window to the list and one to \<^verbatim>\<open>windowCount\<close>; any call that returns
  either leaves list and counter alone or does both.  The end of a message loop takes
  one off the counter.  Both are 32-bit operations, exact as long as the result is in
  range.  After any run from the start state \<^verbatim>\<open>GetWindowCount\<close> is the number of windows
  of the list whose \<^verbatim>\<open>isValid\<close> is set, that is, whose message loop has not ended (in 32
  bits; exactly, with fewer than \<open>2^31\<close> windows).  A window on which the window
  procedure has called \<^verbatim>\<open>DestroyWindow\<close> is counted on: the call changes neither the
  counter nor the list.
\<close>

theorem windowCount_tracks_pumps:
  "(isInitialised s \<and> nm \<noteq> None \<and> 0 < w \<and> 0 < h \<and> created \<noteq> 0 \<longrightarrow>
      (\<exists>r s'. CreateWindow nm w h x y fresh view created s = Inr (r, s') \<and>
              length (windows s') = length (windows s) + 1 \<and>
              windowCount s' = wrap32 (windowCount s + 1))) \<and>
   (CreateWindow nm w h x y fresh view created s = Inr (r, s') \<longrightarrow>
      (windows s' = windows s \<and> windowCount s' = windowCount s) \<or>
      (length (windows s') = length (windows s) + 1 \<and>
       windowCount s' = wrap32 (windowCount s + 1))) \<and>
   windowCount (MessageHandler_exit this s) = wrap32 (windowCount s - 1) \<and>
   (- 2147483648 \<le> k \<and> k < 2147483647 \<longrightarrow> wrap32 (k + 1) = k + 1) \<and>
   (- 2147483648 < k \<and> k \<le> 2147483647 \<longrightarrow> wrap32 (k - 1) = k - 1) \<and>
   (run mbf evs (WindowInfo_init b) = Inr t \<longrightarrow>
      GetWindowCount t = wrap32 (int (length (filter isValid (windows t)))) \<and>
      (length (windows t) < 2147483648 \<longrightarrow>
         GetWindowCount t = int (length (filter isValid (windows t))))) \<and>
   windowCount (snd (WindowProc hw WM_CLOSE wp lp def_result s)) = windowCount s \<and>
   windows (snd (WindowProc hw WM_CLOSE wp lp def_result s)) = windows s \<and>
   OS_DestroyWindow hw \<in> set (os_calls (snd (WindowProc hw WM_CLOSE wp lp def_result s)))"
proof -
  have created: "\<exists>r s'. CreateWindow nm w h x y fresh view created s = Inr (r, s') \<and>
              length (windows s') = length (windows s) + 1 \<and>
              windowCount s' = wrap32 (windowCount s + 1)"
    if "isInitialised s \<and> nm \<noteq> None \<and> 0 < w \<and> 0 < h \<and> created \<noteq> 0"
  proof -
    from that CreateWindow_success [of s nm w h created x y fresh view]
    obtain s' w' where "CreateWindow nm w h x y fresh view created s =
        Inr (word_of_int (wrap32 (windowsOpened s + 1)), s')"
      "windows s' = windows s @ [w']" "windowCount s' = wrap32 (windowCount s + 1)"
      by blast
    then show ?thesis by auto
  qed
  have returned: "(windows s' = windows s \<and> windowCount s' = windowCount s) \<or>
      (length (windows s') = length (windows s) + 1 \<and>
       windowCount s' = wrap32 (windowCount s + 1))"
    if "CreateWindow nm w h x y fresh view created s = Inr (r, s')"
    using CreateWindow_cases [OF that] by auto
  have exit: "windowCount (MessageHandler_exit this s) = wrap32 (windowCount s - 1)"
    by (simp add: MessageHandler_exit_def Let_def)
  have up: "wrap32 (k + 1) = k + 1" if "- 2147483648 \<le> k \<and> k < 2147483647"
    using that by (intro wrap32_id) simp_all
  have down: "wrap32 (k - 1) = k - 1" if "- 2147483648 < k \<and> k \<le> 2147483647"
    using that by (intro wrap32_id) simp_all
  have along: "GetWindowCount t = wrap32 (int (length (filter isValid (windows t)))) \<and>
      (length (windows t) < 2147483648 \<longrightarrow>
         GetWindowCount t = int (length (filter isValid (windows t))))"
    if "run mbf evs (WindowInfo_init b) = Inr t"
  proof -
    from run_bookkeeping [OF init_bookkeeping that]
    have c: "GetWindowCount t = wrap32 (int (length (filter isValid (windows t))))"
      by (simp add: bookkeeping_def GetWindowCount_def pumping_def)
    have "wrap32 (int (length (filter isValid (windows t)))) =
        int (length (filter isValid (windows t)))"
      if "length (windows t) < 2147483648"
    proof (rule wrap32_id)
      show "- 2147483648 \<le> int (length (filter isValid (windows t)))" by simp
      have "length (filter isValid (windows t)) \<le> length (windows t)"
        by (rule length_filter_le)
      with that have "length (filter isValid (windows t)) < 2147483648" by linarith
      then show "int (length (filter isValid (windows t))) < 2147483648" by simp
    qed
    with c show ?thesis by simp
  qed
  have close: "windowCount (snd (WindowProc hw WM_CLOSE wp lp def_result s)) = windowCount s"
    "windows (snd (WindowProc hw WM_CLOSE wp lp def_result s)) = windows s"
    "OS_DestroyWindow hw \<in> set (os_calls (snd (WindowProc hw WM_CLOSE wp lp def_result s)))"
    by (simp_all add: WindowProc_def os_call_def Let_def)
  from created returned exit up down along close show ?thesis by blast
qed

text \<open>
  The example run (two windows created, one creation refused, one message loop ended)
  leaves the count 1 with one valid window; a creation in the example state brings the
  count from 1 to 2; the end of the loop of the window at position 1 brings it to 0.
\<close>

theorem windowCount_tracks_pumps_witness:
  "\<not> isl (run example_MBF example_run (WindowInfo_init True)) \<and>
   GetWindowCount (projr (run example_MBF example_run (WindowInfo_init True))) = 1 \<and>
   map isValid (windows (projr (run example_MBF example_run (WindowInfo_init True)))) =
     [False, True] \<and>
   isInitialised two_windows \<and> windowCount two_windows = 1 \<and>
   (\<exists>r s'. CreateWindow (Some ''third'') 320 200 0 0 window_a all_seen 8 two_windows = Inr (r, s') \<and>
           length (windows s') = 3 \<and> windowCount s' = 2) \<and>
   windowCount (MessageHandler_exit 1 two_windows) = 0"
proof -
  from example_run_result obtain t where
    t: "run example_MBF example_run (WindowInfo_init True) = Inr t"
    and v: "map isValid (windows t) = [False, True]"
    and one: "length (filter isValid (windows t)) = 1"
    by auto
  note th = windowCount_tracks_pumps [where s = two_windows and nm = "Some ''third''"
      and w = 320 and h = 200 and created = 8 and x = 0 and y = 0 and fresh = window_a
      and view = all_seen and this = 1 and k = 1 and r = 0 and s' = two_windows
      and hw = 5 and wp = 0 and lp = 0 and def_result = 0
      and mbf = example_MBF and evs = example_run and b = True and t = t]
  have pre: "isInitialised two_windows" "windowCount two_windows = 1"
    "length (windows two_windows) = 2"
    by (simp_all add: two_windows_def)
  from v have len: "length (windows t) = 2"
    by (metis length_map length_Cons list.size(3) numeral_2_eq_2)
  from th have "run example_MBF example_run (WindowInfo_init True) = Inr t \<longrightarrow>
      (length (windows t) < 2147483648 \<longrightarrow>
         GetWindowCount t = int (length (filter isValid (windows t))))"
    by blast
  with t len have "GetWindowCount t = int (length (filter isValid (windows t)))" by simp
  with one have count: "GetWindowCount t = 1" by simp
  from th pre have create:
    "\<exists>r s'. CreateWindow (Some ''third'') 320 200 0 0 window_a all_seen 8 two_windows = Inr (r, s') \<and>
           length (windows s') = 3 \<and> windowCount s' = 2"
    by auto
  from th pre have exit: "windowCount (MessageHandler_exit 1 two_windows) = 0" by simp
  from t v count pre create exit show ?thesis by simp
qed

text \<open>
  C2 as stated fails for a window that is destroyed while its message loop has not
  ended: after \<^verbatim>\<open>WM_CLOSE\<close> for the only window, \<^verbatim>\<open>DestroyWindow\<close> has been called on
  it, so no window is created and not yet destroyed, and \<^verbatim>\<open>GetWindowCount\<close> is 1.
\<close>

theorem destroyed_window_still_counted:
  "\<not> isl (run example_MBF closing_run (WindowInfo_init True)) \<and>
   GetWindowCount (projr (run example_MBF closing_run (WindowInfo_init True))) = 1 \<and>
   length (windows (projr (run example_MBF closing_run (WindowInfo_init True)))) = 1 \<and>
   not_destroyed (projr (run example_MBF closing_run (WindowInfo_init True))) = []"
proof -
  from closing_run_result obtain t where
    t: "run example_MBF closing_run (WindowInfo_init True) = Inr t"
    and c: "windowCount t = 1" and h: "map hWnd (windows t) = [5]"
    and o: "OS_DestroyWindow 5 \<in> set (os_calls t)"
    by auto
  from h obtain w where w: "windows t = [w]" "hWnd w = 5" by auto
  with o have "not_destroyed t = []" by (simp add: not_destroyed_def)
  with t c w show ?thesis by (simp add: GetWindowCount_def)
qed

text \<open>
  C9, as the code has it.  A call of \<^verbatim>\<open>tsd::CreateWindow\<close> that creates a window
  increments \<^verbatim>\<open>windowsOpened\<close> once, in 32 bits, gives the new window that number as its
  id, and returns the id cut to a \<^verbatim>\<open>short\<close> (the id itself when it is below 32768).
  After any run from the start state \<^verbatim>\<open>windowsOpened\<close> is the length of the window list
  and the window at position \<open>i\<close> has the id \<open>i + 1\<close>, both in 32 bits.  With fewer than
  \<open>2^31\<close> windows in the list the ids are 1, 2, ... in this order: every id is positive,
  the ids increase along the list, and no two windows share one.
\<close>

theorem window_ids_distinct_increasing:
  "(isInitialised s \<and> nm \<noteq> None \<and> 0 < w \<and> 0 < h \<and> created \<noteq> 0 \<longrightarrow>
      (\<exists>s' w'. CreateWindow nm w h x y fresh view created s =
                 Inr (word_of_int (win_id w'), s') \<and>
              windows s' = windows s @ [w'] \<and>
              windowsOpened s' = wrap32 (windowsOpened s + 1) \<and>
              win_id w' = windowsOpened s')) \<and>
   (- 32768 \<le> k \<and> k < 32768 \<longrightarrow> sint (word_of_int k :: short) = k) \<and>
   (run mbf evs (WindowInfo_init b) = Inr t \<longrightarrow>
      windowsOpened t = wrap32 (int (length (windows t))) \<and>
      (\<forall>i < length (windows t). win_id (windows t ! i) = wrap32 (int i + 1)) \<and>
      (length (windows t) < 2147483648 \<longrightarrow>
         windowsOpened t = int (length (windows t)) \<and>
         (\<forall>i < length (windows t). win_id (windows t ! i) = int i + 1) \<and>
         (\<forall>w \<in> set (windows t). 0 < win_id w) \<and>
         distinct (map win_id (windows t)) \<and>
         sorted_wrt (<) (map win_id (windows t))))"
proof -
  have created: "\<exists>s' w'. CreateWindow nm w h x y fresh view created s =
                 Inr (word_of_int (win_id w'), s') \<and>
              windows s' = windows s @ [w'] \<and>
              windowsOpened s' = wrap32 (windowsOpened s + 1) \<and>
              win_id w' = windowsOpened s'"
    if "isInitialised s \<and> nm \<noteq> None \<and> 0 < w \<and> 0 < h \<and> created \<noteq> 0"
  proof -
    from that CreateWindow_success [of s nm w h created x y fresh view]
    obtain s' w' where "CreateWindow nm w h x y fresh view created s =
        Inr (word_of_int (wrap32 (windowsOpened s + 1)), s')"
      "windows s' = windows s @ [w']" "win_id w' = wrap32 (windowsOpened s + 1)"
      "windowsOpened s' = wrap32 (windowsOpened s + 1)"
      by blast
    then show ?thesis by auto
  qed
  have short: "sint (word_of_int k :: short) = k" if "- 32768 \<le> k \<and> k < 32768"
    using that by (simp add: sint_sbintrunc' signed_take_bit_int_eq_self)
  have along: "windowsOpened t = wrap32 (int (length (windows t))) \<and>
      (\<forall>i < length (windows t). win_id (windows t ! i) = wrap32 (int i + 1)) \<and>
      (length (windows t) < 2147483648 \<longrightarrow>
         windowsOpened t = int (length (windows t)) \<and>
         (\<forall>i < length (windows t). win_id (windows t ! i) = int i + 1) \<and>
         (\<forall>w \<in> set (windows t). 0 < win_id w) \<and>
         distinct (map win_id (windows t)) \<and>
         sorted_wrt (<) (map win_id (windows t)))"
    if "run mbf evs (WindowInfo_init b) = Inr t"
  proof -
    from run_bookkeeping [OF init_bookkeeping that]
    have opened: "windowsOpened t = wrap32 (int (length (windows t)))"
      and ids: "map win_id (windows t) =
        map (\<lambda>i. wrap32 (int i + 1)) [0..<length (windows t)]"
      by (simp_all add: bookkeeping_def)
    have nth: "win_id (windows t ! i) = wrap32 (int i + 1)" if "i < length (windows t)" for i
    proof -
      from that have "win_id (windows t ! i) = map win_id (windows t) ! i" by simp
      also from that have "\<dots> = wrap32 (int i + 1)" by (simp only: ids) simp
      finally show ?thesis .
    qed
    have small: "windowsOpened t = int (length (windows t)) \<and>
         (\<forall>i < length (windows t). win_id (windows t ! i) = int i + 1) \<and>
         (\<forall>w \<in> set (windows t). 0 < win_id w) \<and>
         distinct (map win_id (windows t)) \<and>
         sorted_wrt (<) (map win_id (windows t))"
      if bound: "length (windows t) < 2147483648"
    proof -
      have o: "windowsOpened t = int (length (windows t))"
        unfolding opened using bound by (intro wrap32_id) simp_all
      have exact: "win_id (windows t ! i) = int i + 1" if "i < length (windows t)" for i
      proof -
        from that bound have "wrap32 (int i + 1) = int i + 1"
          by (intro wrap32_id) simp_all
        with nth [OF that] show ?thesis by simp
      qed
      have ids': "map win_id (windows t) = map (\<lambda>i. int i + 1) [0..<length (windows t)]"
        by (rule nth_equalityI) (simp_all add: exact)
      have pos: "0 < win_id w" if "w \<in> set (windows t)" for w
      proof -
        from that obtain i where "i < length (windows t)" "w = windows t ! i"
          by (auto simp add: in_set_conv_nth)
        with exact [of i] show ?thesis by simp
      qed
      have "distinct (map win_id (windows t))"
        unfolding ids' by (simp add: distinct_map inj_on_def)
      moreover have "sorted_wrt (<) (map win_id (windows t))"
        unfolding ids' by (simp add: sorted_wrt_iff_nth_less)
      ultimately show ?thesis using o exact pos by blast
    qed
    from opened nth small show ?thesis by blast
  qed
  from created short along show ?thesis by blast
qed

text \<open>
  The example run leaves the ids 1 and 2; a creation in the example state, where two
  windows have been opened, gives the new window the id 3 and returns 3.
\<close>

theorem window_ids_distinct_increasing_witness:
  "\<not> isl (run example_MBF example_run (WindowInfo_init True)) \<and>
   map win_id (windows (projr (run example_MBF example_run (WindowInfo_init True)))) = [1, 2] \<and>
   windowsOpened (projr (run example_MBF example_run (WindowInfo_init True))) = 2 \<and>
   distinct (map win_id (windows (projr (run example_MBF example_run (WindowInfo_init True))))) \<and>
   isInitialised two_windows \<and> windowsOpened two_windows = 2 \<and>
   (\<exists>s' w'. CreateWindow (Some ''third'') 320 200 0 0 window_a all_seen 8 two_windows =
               Inr (3, s') \<and>
           windows s' = windows two_windows @ [w'] \<and> windowsOpened s' = 3 \<and> win_id w' = 3) \<and>
   sint (word_of_int 3 :: short) = 3"
proof -
  from example_run_result obtain t where
    t: "run example_MBF example_run (WindowInfo_init True) = Inr t"
    and o: "windowsOpened t = 2" and ids: "map win_id (windows t) = [1, 2]"
    by auto
  note th = window_ids_distinct_increasing [where s = two_windows and nm = "Some ''third''"
      and w = 320 and h = 200 and created = 8 and x = 0 and y = 0 and fresh = window_a
      and view = all_seen and k = 3
      and mbf = example_MBF and evs = example_run and b = True and t = t]
  have pre: "isInitialised two_windows" "windowsOpened two_windows = 2"
    by (simp_all add: two_windows_def)
  from ids have len: "length (windows t) = 2"
    by (metis length_map length_Cons list.size(3) numeral_2_eq_2)
  from th have "run example_MBF example_run (WindowInfo_init True) = Inr t \<longrightarrow>
      (length (windows t) < 2147483648 \<longrightarrow> distinct (map win_id (windows t)))"
    by blast
  with t len have d: "distinct (map win_id (windows t))" by simp
  have w3: "wrap32 3 = 3" by (simp add: wrap32_def)
  have ante: "isInitialised two_windows \<and> Some ''third'' \<noteq> None \<and> (0 :: int) < 320 \<and>
      (0 :: int) < 200 \<and> (8 :: nat) \<noteq> 0"
    using pre by simp
  from th ante have "\<exists>s' w'. CreateWindow (Some ''third'') 320 200 0 0 window_a all_seen 8
        two_windows = Inr (word_of_int (win_id w'), s') \<and>
      windows s' = windows two_windows @ [w'] \<and>
      windowsOpened s' = wrap32 (windowsOpened two_windows + 1) \<and>
      win_id w' = windowsOpened s'"
    by blast
  with pre w3 have create:
    "\<exists>s' w'. CreateWindow (Some ''third'') 320 200 0 0 window_a all_seen 8 two_windows =
               Inr (3, s') \<and>
           windows s' = windows two_windows @ [w'] \<and> windowsOpened s' = 3 \<and> win_id w' = 3"
    by auto
  from th have s3: "sint (word_of_int 3 :: short) = 3" by simp
  from t o ids d pre create s3 show ?thesis by simp
qed

text \<open>
  C9 as stated fails at the end of the range of the counter: the window created by the
  \<open>2^31\<close>-th creation of a run gets the id \<open>-2^31\<close>, which is not positive.
\<close>

theorem window_id_wraps_negative:
  "\<not> isl (run example_MBF (creations 2147483648) (WindowInfo_init True)) \<and>
   length (windows (projr (run example_MBF (creations 2147483648) (WindowInfo_init True))))
     = 2147483648 \<and>
   win_id (last (windows (projr (run example_MBF (creations 2147483648)
     (WindowInfo_init True))))) = - 2147483648"
proof -
  from run_creations [of example_MBF 2147483648 True] obtain t where
    t: "run example_MBF (creations 2147483648) (WindowInfo_init True) = Inr t"
    and len: "length (windows t) = 2147483648"
    by blast
  from run_bookkeeping [OF init_bookkeeping t]
  have ids: "map win_id (windows t) =
      map (\<lambda>i. wrap32 (int i + 1)) [0..<length (windows t)]"
    by (simp add: bookkeeping_def)
  from len have ne: "windows t \<noteq> []" by auto
  then have "win_id (last (windows t)) = last (map win_id (windows t))"
    by (simp add: last_map)
  also have "\<dots> = wrap32 (int (length (windows t) - 1) + 1)"
    using ne by (simp only: ids) (simp add: last_map)
  also have "\<dots> = - 2147483648"
    by (simp only: len) (simp add: wrap32_def)
  finally have "win_id (last (windows t)) = - 2147483648" .
  with t len show ?thesis by simp
qed

end
